theory Spec2Isabelle
  imports Main "HOL-Library.Word"
begin

unbundle bit_operations_syntax

section \<open>Amlogic Meson8b DWMAC glue layer (dwmac-meson8b.c)\<close>

text \<open>
  A shallow embedding of \<^verbatim>\<open>drivers/net/ethernet/stmicro/stmmac/dwmac-meson8b.c\<close>.
  The mapped register block and a log of every call that leaves the driver (register
  accesses, clock framework calls, messages) form the state that each function takes
  and returns. A C function returning \<^verbatim>\<open>int\<close> returns a sum here: \<open>Inl ret\<close> for a
  non-zero return value \<open>ret\<close>, \<open>Inr\<close> for 0.
\<close>

subsection \<open>Kernel headers\<close>

type_synonym u32 = "32 word"

text \<open>Error numbers of \<^verbatim>\<open>errno.h\<close>; the driver returns them negated.\<close>

definition EINVAL :: int where "EINVAL = 22"
definition ENOMEM :: int where "ENOMEM = 12"
definition EPROBE_DEFER :: int where "EPROBE_DEFER = 517"

text \<open>
  Modelled from the spec: \<^verbatim>\<open>BIT\<close> and \<^verbatim>\<open>GENMASK\<close> are macros of \<^verbatim>\<open>linux/bits.h\<close>,
  which is not among the sources. The spec's register layout names single bits and bit
  ranges \<open>[h:l]\<close>; \<open>BIT n\<close> is the word with bit \<open>n\<close> set and \<open>GENMASK h l\<close> the word
  with the bits \<open>l\<close> to \<open>h\<close> set, computed as the kernel macro does
  (\<^verbatim>\<open>((~0UL) - (1UL << l) + 1) & (~0UL >> (BITS_PER_LONG - 1 - h))\<close>) at the width of
  the \<^verbatim>\<open>u32\<close> parameters that receive it.
\<close>

definition BIT :: "nat \<Rightarrow> u32" where
  "BIT n = push_bit n 1"

definition GENMASK :: "nat \<Rightarrow> nat \<Rightarrow> u32" where
  "GENMASK h l = (NOT 0 - push_bit l 1 + 1) AND drop_bit (31 - h) (NOT 0)"

text \<open>
  Modelled from the spec: \<^verbatim>\<open>FIELD_PREP\<close> is a macro of \<^verbatim>\<open>linux/bitfield.h\<close>, which is
  not among the sources. It is the spec's \<open>pack\<close>: the value is shifted to the position
  of the lowest set bit of the mask (\<^verbatim>\<open>__bf_shf\<close>) and masked to the mask's span.
  \<open>FIELD_GET\<close> is the spec's \<open>unpack\<close>, its inverse on the field.
\<close>

definition bf_shf :: "u32 \<Rightarrow> nat" where
  "bf_shf x = length (takeWhile (\<lambda>i. \<not> bit x i) [0..<32])"

definition FIELD_PREP :: "u32 \<Rightarrow> u32 \<Rightarrow> u32" where
  "FIELD_PREP msk val = push_bit (bf_shf msk) val AND msk"

definition FIELD_GET :: "u32 \<Rightarrow> u32 \<Rightarrow> u32" where
  "FIELD_GET msk reg = drop_bit (bf_shf msk) (reg AND msk)"

text \<open>
  Modelled from the spec: \<^verbatim>\<open>phy_interface_t\<close> and \<^verbatim>\<open>phy_interface_mode_is_rgmii\<close> are
  declared in \<^verbatim>\<open>linux/phy.h\<close>, which is not among the sources. The spec's interface modes
  are the five that the driver's \<^verbatim>\<open>switch\<close> statements name; every other enumerator takes
  their \<^verbatim>\<open>default\<close> branch. The RGMII family is RGMII and its three internal-delay
  variants.
\<close>

datatype phy_interface_t =
    PHY_INTERFACE_MODE_NA
  | PHY_INTERFACE_MODE_INTERNAL
  | PHY_INTERFACE_MODE_MII
  | PHY_INTERFACE_MODE_GMII
  | PHY_INTERFACE_MODE_SGMII
  | PHY_INTERFACE_MODE_TBI
  | PHY_INTERFACE_MODE_REVMII
  | PHY_INTERFACE_MODE_RMII
  | PHY_INTERFACE_MODE_RGMII
  | PHY_INTERFACE_MODE_RGMII_ID
  | PHY_INTERFACE_MODE_RGMII_RXID
  | PHY_INTERFACE_MODE_RGMII_TXID
  | PHY_INTERFACE_MODE_RTBI
  | PHY_INTERFACE_MODE_SMII
  | PHY_INTERFACE_MODE_XGMII
  | PHY_INTERFACE_MODE_MOCA
  | PHY_INTERFACE_MODE_QSGMII
  | PHY_INTERFACE_MODE_TRGMII
  | PHY_INTERFACE_MODE_1000BASEX
  | PHY_INTERFACE_MODE_2500BASEX
  | PHY_INTERFACE_MODE_RXAUI
  | PHY_INTERFACE_MODE_XAUI
  | PHY_INTERFACE_MODE_10GKR
  | PHY_INTERFACE_MODE_USXGMII
  | PHY_INTERFACE_MODE_MAX

fun phy_interface_mode_is_rgmii :: "phy_interface_t \<Rightarrow> bool" where
  "phy_interface_mode_is_rgmii PHY_INTERFACE_MODE_RGMII = True"
| "phy_interface_mode_is_rgmii PHY_INTERFACE_MODE_RGMII_ID = True"
| "phy_interface_mode_is_rgmii PHY_INTERFACE_MODE_RGMII_RXID = True"
| "phy_interface_mode_is_rgmii PHY_INTERFACE_MODE_RGMII_TXID = True"
| "phy_interface_mode_is_rgmii _ = False"

subsection \<open>Register layout (lines 24--101)\<close>

definition PRG_ETH0 :: u32 where "PRG_ETH0 = 0x0"

definition PRG_ETH0_RGMII_MODE :: u32 where "PRG_ETH0_RGMII_MODE = BIT 0"

definition PRG_ETH0_EXT_PHY_MODE_MASK :: u32 where "PRG_ETH0_EXT_PHY_MODE_MASK = GENMASK 2 0"
definition PRG_ETH0_EXT_RGMII_MODE :: u32 where "PRG_ETH0_EXT_RGMII_MODE = 1"
definition PRG_ETH0_EXT_RMII_MODE :: u32 where "PRG_ETH0_EXT_RMII_MODE = 4"

definition PRG_ETH0_CLK_M250_SEL_MASK :: u32 where "PRG_ETH0_CLK_M250_SEL_MASK = GENMASK 4 4"

definition PRG_ETH0_TXDLY_MASK :: u32 where "PRG_ETH0_TXDLY_MASK = GENMASK 6 5"

definition PRG_ETH0_CLK_M250_DIV_SHIFT :: nat where "PRG_ETH0_CLK_M250_DIV_SHIFT = 7"
definition PRG_ETH0_CLK_M250_DIV_WIDTH :: nat where "PRG_ETH0_CLK_M250_DIV_WIDTH = 3"

definition PRG_ETH0_RGMII_TX_CLK_EN :: nat where "PRG_ETH0_RGMII_TX_CLK_EN = 10"

definition PRG_ETH0_INVERTED_RMII_CLK :: u32 where "PRG_ETH0_INVERTED_RMII_CLK = BIT 11"
definition PRG_ETH0_TX_AND_PHY_REF_CLK :: u32 where "PRG_ETH0_TX_AND_PHY_REF_CLK = BIT 12"

definition PRG_ETH0_ADJ_ENABLE :: u32 where "PRG_ETH0_ADJ_ENABLE = BIT 13"
definition PRG_ETH0_ADJ_SETUP :: u32 where "PRG_ETH0_ADJ_SETUP = BIT 14"
definition PRG_ETH0_ADJ_DELAY :: u32 where "PRG_ETH0_ADJ_DELAY = GENMASK 19 15"
definition PRG_ETH0_ADJ_SKEW :: u32 where "PRG_ETH0_ADJ_SKEW = GENMASK 24 20"

definition MUX_CLK_NUM_PARENTS :: nat where "MUX_CLK_NUM_PARENTS = 2"

definition PRG_ETH1 :: u32 where "PRG_ETH1 = 0x4"

subsection \<open>Driver data (lines 103--126)\<close>

text \<open>A \<^verbatim>\<open>struct clk *\<close> is a handle or \<^verbatim>\<open>NULL\<close> (\<open>None\<close>).\<close>

datatype clk = Clk nat

text \<open>
  \<^verbatim>\<open>struct meson8b_dwmac_data\<close> holds one function pointer; the file has two instances,
  one per chip family.
\<close>

datatype meson8b_dwmac_data = Meson8b_dwmac_data | Meson_axg_dwmac_data

text \<open>
  \<^verbatim>\<open>struct meson8b_dwmac\<close>. The fields \<^verbatim>\<open>dev\<close> and \<^verbatim>\<open>regs\<close> are the device and the
  mapped register block, which the state below carries.
\<close>

record meson8b_dwmac =
  data :: meson8b_dwmac_data
  phy_mode :: phy_interface_t
  rgmii_tx_clk :: "clk option"
  tx_delay_ns :: u32
  rx_delay_ns :: u32
  timing_adj_clk :: "clk option"

subsection \<open>State: the register block and the log of outside calls\<close>

text \<open>
  The \<^verbatim>\<open>clk_hw\<close> that a registered clock wraps, with the fields that the driver sets in
  \<^verbatim>\<open>struct meson8b_dwmac_clk_configs\<close>: a mux (shift, mask), a divider (shift, width,
  table of (div, val) pairs), a fixed factor (mult, div) and a gate (bit index), all on
  \<^verbatim>\<open>PRG_ETH0\<close>.
\<close>

datatype clk_hw =
    Clk_mux nat u32
  | Clk_divider nat nat "(nat \<times> nat) list"
  | Clk_fixed_factor nat nat
  | Clk_gate nat

datatype event =
    Readl u32 u32                     \<comment> \<open>\<^verbatim>\<open>readl(regs + reg)\<close> and the value it returned\<close>
  | Writel u32 u32                    \<comment> \<open>\<^verbatim>\<open>writel(data, regs + reg)\<close>\<close>
  | Dev_err string                    \<comment> \<open>\<^verbatim>\<open>dev_err\<close>, its format string without the newline\<close>
  | Devm_clk_get string
  | Devm_clk_get_optional string
  | Devm_clk_register string "string list" clk_hw
  | Clk_set_rate "clk option" nat
  | Clk_prepare_enable "clk option"
  | Devm_add_action_or_reset "clk option"  \<comment> \<open>with the action \<^verbatim>\<open>clk_disable_unprepare\<close>\<close>
  | Stmmac_dvr_probe
  | Stmmac_remove_config_dt

record hw =
  regs :: "u32 \<Rightarrow> u32"      \<comment> \<open>the mapped block, by byte offset\<close>
  trace :: "event list"     \<comment> \<open>oldest event first\<close>

definition log :: "event \<Rightarrow> hw \<Rightarrow> hw" where
  "log e h = h\<lparr>trace := trace h @ [e]\<rparr>"

definition readl :: "u32 \<Rightarrow> hw \<Rightarrow> u32 \<times> hw" where
  "readl reg h = (regs h reg, log (Readl reg (regs h reg)) h)"

definition writel :: "u32 \<Rightarrow> u32 \<Rightarrow> hw \<Rightarrow> hw" where
  "writel val reg h = log (Writel val reg) (h\<lparr>regs := (regs h)(reg := val)\<rparr>)"

definition dev_err :: "string \<Rightarrow> hw \<Rightarrow> hw" where
  "dev_err fmt h = log (Dev_err fmt) h"

text \<open>
  The kernel around the driver: what each outside call returns, and what the clock
  framework does to the register block when it acts on a clock (the clocks that the
  driver registers live in \<^verbatim>\<open>PRG_ETH0\<close>). Return values do not depend on the register
  contents.
\<close>

record kernel =
  clk_set_rate_ret :: "clk option \<Rightarrow> nat \<Rightarrow> int"
  clk_set_rate_io :: "clk option \<Rightarrow> nat \<Rightarrow> (u32 \<Rightarrow> u32) \<Rightarrow> (u32 \<Rightarrow> u32)"
  clk_prepare_enable_ret :: "clk option \<Rightarrow> int"
  clk_prepare_enable_io :: "clk option \<Rightarrow> (u32 \<Rightarrow> u32) \<Rightarrow> (u32 \<Rightarrow> u32)"
  devm_add_action_or_reset_io :: "clk option \<Rightarrow> (u32 \<Rightarrow> u32) \<Rightarrow> (u32 \<Rightarrow> u32)"
  stmmac_get_platform_resources :: int
  stmmac_probe_config_dt :: "int + unit"           \<comment> \<open>\<open>Inl e\<close> is \<^verbatim>\<open>ERR_PTR(e)\<close>\<close>
  devm_kzalloc_dwmac :: bool                       \<comment> \<open>\<open>False\<close> is \<^verbatim>\<open>NULL\<close>\<close>
  of_device_get_match_data :: "meson8b_dwmac_data option"
  devm_platform_ioremap_resource :: "int + unit"
  of_get_phy_mode :: "phy_interface_t option"      \<comment> \<open>\<open>None\<close> is a negative return value\<close>
  of_tx_delay_ns :: "u32 option"                   \<comment> \<open>property \<^verbatim>\<open>amlogic,tx-delay-ns\<close>\<close>
  of_rx_delay_ns :: "u32 option"                   \<comment> \<open>property \<^verbatim>\<open>amlogic,rx-delay-ns\<close>\<close>
  devm_clk_get_optional :: "string \<Rightarrow> int + clk option"
  devm_kzalloc_clk_configs :: bool
  devm_clk_get :: "string \<Rightarrow> int + clk"
  clk_get_name :: "clk \<Rightarrow> string"
  dev_name :: string
  devm_clk_register :: "string \<Rightarrow> string list \<Rightarrow> clk_hw \<Rightarrow> int + clk"
  stmmac_dvr_probe :: int

definition clk_set_rate :: "kernel \<Rightarrow> clk option \<Rightarrow> nat \<Rightarrow> hw \<Rightarrow> int \<times> hw" where
  "clk_set_rate k c rate h =
     (clk_set_rate_ret k c rate,
      log (Clk_set_rate c rate) (h\<lparr>regs := clk_set_rate_io k c rate (regs h)\<rparr>))"

definition clk_prepare_enable :: "kernel \<Rightarrow> clk option \<Rightarrow> hw \<Rightarrow> int \<times> hw" where
  "clk_prepare_enable k c h =
     (clk_prepare_enable_ret k c,
      log (Clk_prepare_enable c) (h\<lparr>regs := clk_prepare_enable_io k c (regs h)\<rparr>))"

definition devm_add_action_or_reset :: "kernel \<Rightarrow> clk option \<Rightarrow> hw \<Rightarrow> hw" where
  "devm_add_action_or_reset k c h =
     log (Devm_add_action_or_reset c) (h\<lparr>regs := devm_add_action_or_reset_io k c (regs h)\<rparr>)"

subsection \<open>\<^verbatim>\<open>meson8b_dwmac_mask_bits\<close> (lines 128--138)\<close>

definition meson8b_dwmac_mask_bits :: "u32 \<Rightarrow> u32 \<Rightarrow> u32 \<Rightarrow> hw \<Rightarrow> hw" where
  "meson8b_dwmac_mask_bits reg msk val h =
     (let (d, h1) = readl reg h;
          d = d AND NOT msk;
          d = d OR (val AND msk)
      in writel d reg h1)"

subsection \<open>\<^verbatim>\<open>meson8b_set_phy_mode\<close> and \<^verbatim>\<open>meson_axg_set_phy_mode\<close> (lines 247--298)\<close>

definition meson8b_set_phy_mode :: "meson8b_dwmac \<Rightarrow> hw \<Rightarrow> (int + unit) \<times> hw" where
  "meson8b_set_phy_mode dwmac h =
     (case phy_mode dwmac of
        PHY_INTERFACE_MODE_RGMII \<Rightarrow>
          (Inr (), meson8b_dwmac_mask_bits PRG_ETH0 PRG_ETH0_RGMII_MODE PRG_ETH0_RGMII_MODE h)
      | PHY_INTERFACE_MODE_RGMII_RXID \<Rightarrow>
          (Inr (), meson8b_dwmac_mask_bits PRG_ETH0 PRG_ETH0_RGMII_MODE PRG_ETH0_RGMII_MODE h)
      | PHY_INTERFACE_MODE_RGMII_ID \<Rightarrow>
          (Inr (), meson8b_dwmac_mask_bits PRG_ETH0 PRG_ETH0_RGMII_MODE PRG_ETH0_RGMII_MODE h)
      | PHY_INTERFACE_MODE_RGMII_TXID \<Rightarrow>
          (Inr (), meson8b_dwmac_mask_bits PRG_ETH0 PRG_ETH0_RGMII_MODE PRG_ETH0_RGMII_MODE h)
      | PHY_INTERFACE_MODE_RMII \<Rightarrow>
          (Inr (), meson8b_dwmac_mask_bits PRG_ETH0 PRG_ETH0_RGMII_MODE 0 h)
      | _ \<Rightarrow> (Inl (- EINVAL), dev_err ''fail to set phy-mode %s'' h))"

definition meson_axg_set_phy_mode :: "meson8b_dwmac \<Rightarrow> hw \<Rightarrow> (int + unit) \<times> hw" where
  "meson_axg_set_phy_mode dwmac h =
     (case phy_mode dwmac of
        PHY_INTERFACE_MODE_RGMII \<Rightarrow>
          (Inr (), meson8b_dwmac_mask_bits PRG_ETH0 PRG_ETH0_EXT_PHY_MODE_MASK
                     PRG_ETH0_EXT_RGMII_MODE h)
      | PHY_INTERFACE_MODE_RGMII_RXID \<Rightarrow>
          (Inr (), meson8b_dwmac_mask_bits PRG_ETH0 PRG_ETH0_EXT_PHY_MODE_MASK
                     PRG_ETH0_EXT_RGMII_MODE h)
      | PHY_INTERFACE_MODE_RGMII_ID \<Rightarrow>
          (Inr (), meson8b_dwmac_mask_bits PRG_ETH0 PRG_ETH0_EXT_PHY_MODE_MASK
                     PRG_ETH0_EXT_RGMII_MODE h)
      | PHY_INTERFACE_MODE_RGMII_TXID \<Rightarrow>
          (Inr (), meson8b_dwmac_mask_bits PRG_ETH0 PRG_ETH0_EXT_PHY_MODE_MASK
                     PRG_ETH0_EXT_RGMII_MODE h)
      | PHY_INTERFACE_MODE_RMII \<Rightarrow>
          (Inr (), meson8b_dwmac_mask_bits PRG_ETH0 PRG_ETH0_EXT_PHY_MODE_MASK
                     PRG_ETH0_EXT_RMII_MODE h)
      | _ \<Rightarrow> (Inl (- EINVAL), dev_err ''fail to set phy-mode %s'' h))"

text \<open>The function pointer \<^verbatim>\<open>set_phy_mode\<close> of the two instances (lines 500--506).\<close>

fun set_phy_mode :: "meson8b_dwmac_data \<Rightarrow> meson8b_dwmac \<Rightarrow> hw \<Rightarrow> (int + unit) \<times> hw" where
  "set_phy_mode Meson8b_dwmac_data = meson8b_set_phy_mode"
| "set_phy_mode Meson_axg_dwmac_data = meson_axg_set_phy_mode"

subsection \<open>\<^verbatim>\<open>meson8b_dwmac_register_clk\<close> and \<^verbatim>\<open>meson8b_init_rgmii_tx_clk\<close> (lines 140--245)\<close>

fun string_of_nat :: "nat \<Rightarrow> string" where
  "string_of_nat n =
     (if n < 10 then [char_of (48 + n)]
      else string_of_nat (n div 10) @ [char_of (48 + n mod 10)])"

declare string_of_nat.simps [simp del]

text \<open>The clock name is cut to the 32 bytes of \<^verbatim>\<open>clk_name\<close>, the last one the terminator.\<close>

definition meson8b_dwmac_register_clk ::
  "kernel \<Rightarrow> string \<Rightarrow> string list \<Rightarrow> clk_hw \<Rightarrow> hw \<Rightarrow> (int + clk) \<times> hw" where
  "meson8b_dwmac_register_clk k name_suffix parent_names hw_clk h =
     (let clk_name = take 31 (dev_name k @ ''#'' @ name_suffix)
      in (devm_clk_register k clk_name parent_names hw_clk,
          log (Devm_clk_register clk_name parent_names hw_clk) h))"

text \<open>
  The loop of lines 186--199 over the indices that are left: it stops at the first
  missing parent clock, otherwise it collects the parents' names.
\<close>

fun mux_parents :: "kernel \<Rightarrow> nat list \<Rightarrow> hw \<Rightarrow> (int + string list) \<times> hw" where
  "mux_parents k [] h = (Inr [], h)"
| "mux_parents k (i # idx) h =
     (let name = take 15 (''clkin'' @ string_of_nat i);
          h1 = log (Devm_clk_get name) h
      in case devm_clk_get k name of
           Inl ret \<Rightarrow>
             (Inl ret, if ret \<noteq> - EPROBE_DEFER then dev_err ''Missing clock %s'' h1 else h1)
         | Inr c \<Rightarrow>
             (case mux_parents k idx h1 of
                (Inl ret, h2) \<Rightarrow> (Inl ret, h2)
              | (Inr names, h2) \<Rightarrow> (Inr (clk_get_name k c # names), h2)))"

definition div_table :: "(nat \<times> nat) list" where
  "div_table = [(2, 2), (3, 3), (4, 4), (5, 5), (6, 6), (7, 7)]"

definition meson8b_init_rgmii_tx_clk ::
  "kernel \<Rightarrow> meson8b_dwmac \<Rightarrow> hw \<Rightarrow> (int + meson8b_dwmac) \<times> hw" where
  "meson8b_init_rgmii_tx_clk k dwmac h =
     (if \<not> devm_kzalloc_clk_configs k then (Inl (- ENOMEM), h)
      else case mux_parents k [0..<MUX_CLK_NUM_PARENTS] h of
        (Inl ret, h1) \<Rightarrow> (Inl ret, h1)
      | (Inr mux_parent_names, h1) \<Rightarrow>
      (let shift = bf_shf PRG_ETH0_CLK_M250_SEL_MASK
       in case meson8b_dwmac_register_clk k ''m250_sel'' mux_parent_names
                 (Clk_mux shift (drop_bit shift PRG_ETH0_CLK_M250_SEL_MASK)) h1 of
        (Inl ret, h2) \<Rightarrow> (Inl ret, h2)
      | (Inr c, h2) \<Rightarrow>
      (case meson8b_dwmac_register_clk k ''m250_div'' [clk_get_name k c]
              (Clk_divider PRG_ETH0_CLK_M250_DIV_SHIFT PRG_ETH0_CLK_M250_DIV_WIDTH div_table)
              h2 of
        (Inl ret, h3) \<Rightarrow> (Inl ret, h3)
      | (Inr c, h3) \<Rightarrow>
      (case meson8b_dwmac_register_clk k ''fixed_div2'' [clk_get_name k c]
              (Clk_fixed_factor 1 2) h3 of
        (Inl ret, h4) \<Rightarrow> (Inl ret, h4)
      | (Inr c, h4) \<Rightarrow>
      (case meson8b_dwmac_register_clk k ''rgmii_tx_en'' [clk_get_name k c]
              (Clk_gate PRG_ETH0_RGMII_TX_CLK_EN) h4 of
        (Inl ret, h5) \<Rightarrow> (Inl ret, h5)
      | (Inr c, h5) \<Rightarrow> (Inr (dwmac\<lparr>rgmii_tx_clk := Some c\<rparr>), h5))))))"

subsection \<open>\<^verbatim>\<open>meson8b_devm_clk_prepare_enable\<close> (lines 300--314)\<close>

text \<open>
  The clean-up action is registered for \<^verbatim>\<open>dwmac->rgmii_tx_clk\<close>, whichever clock was
  enabled, and the return value of \<^verbatim>\<open>devm_add_action_or_reset\<close> is not looked at.
\<close>

definition meson8b_devm_clk_prepare_enable ::
  "kernel \<Rightarrow> meson8b_dwmac \<Rightarrow> clk option \<Rightarrow> hw \<Rightarrow> (int + unit) \<times> hw" where
  "meson8b_devm_clk_prepare_enable k dwmac c h =
     (let (ret, h1) = clk_prepare_enable k c h
      in if ret \<noteq> 0 then (Inl ret, h1)
         else (Inr (), devm_add_action_or_reset k (rgmii_tx_clk dwmac) h1))"

subsection \<open>\<^verbatim>\<open>meson8b_init_prg_eth\<close> (lines 316--407)\<close>

text \<open>The local \<^verbatim>\<open>tx_dly_config\<close> (lines 321--322).\<close>

definition tx_dly_config :: "meson8b_dwmac \<Rightarrow> u32" where
  "tx_dly_config dwmac = FIELD_PREP PRG_ETH0_TXDLY_MASK (drop_bit 1 (tx_delay_ns dwmac))"

text \<open>The local \<^verbatim>\<open>rx_dly_config\<close> (lines 324--327).\<close>

definition rx_dly_config :: "meson8b_dwmac \<Rightarrow> u32" where
  "rx_dly_config dwmac =
     (if rx_delay_ns dwmac = 2 then PRG_ETH0_ADJ_ENABLE OR PRG_ETH0_ADJ_SETUP else 0)"

text \<open>
  The local \<^verbatim>\<open>delay_config\<close> after the \<^verbatim>\<open>switch\<close> of lines 329--347; \<open>None\<close> is its
  \<^verbatim>\<open>default\<close> branch, which returns.
\<close>

definition delay_config :: "meson8b_dwmac \<Rightarrow> u32 option" where
  "delay_config dwmac =
     (case phy_mode dwmac of
        PHY_INTERFACE_MODE_RGMII \<Rightarrow> Some (tx_dly_config dwmac OR rx_dly_config dwmac)
      | PHY_INTERFACE_MODE_RGMII_RXID \<Rightarrow> Some (tx_dly_config dwmac)
      | PHY_INTERFACE_MODE_RGMII_TXID \<Rightarrow> Some (rx_dly_config dwmac)
      | PHY_INTERFACE_MODE_RGMII_ID \<Rightarrow> Some 0
      | PHY_INTERFACE_MODE_RMII \<Rightarrow> Some 0
      | _ \<Rightarrow> None)"

text \<open>The mask of the write of lines 366--369.\<close>

definition delay_mask :: u32 where
  "delay_mask = PRG_ETH0_TXDLY_MASK OR PRG_ETH0_ADJ_ENABLE OR PRG_ETH0_ADJ_SETUP OR
                PRG_ETH0_ADJ_DELAY OR PRG_ETH0_ADJ_SKEW"

definition meson8b_init_prg_eth :: "kernel \<Rightarrow> meson8b_dwmac \<Rightarrow> hw \<Rightarrow> (int + unit) \<times> hw" where
  "meson8b_init_prg_eth k dwmac h =
     (case delay_config dwmac of
        None \<Rightarrow> (Inl (- EINVAL), dev_err ''unsupported phy-mode %s'' h)
      | Some dc \<Rightarrow>
      (case (if rx_dly_config dwmac AND PRG_ETH0_ADJ_ENABLE \<noteq> 0 then
               (if timing_adj_clk dwmac = None then
                  (Inl (- EINVAL),
                   dev_err ''The timing-adjustment clock is mandatory for the RX delay re-timing'' h)
                else
                  (case meson8b_devm_clk_prepare_enable k dwmac (timing_adj_clk dwmac) h of
                     (Inl ret, h1) \<Rightarrow>
                       (Inl ret, dev_err ''Failed to enable the timing-adjustment clock'' h1)
                   | (Inr u, h1) \<Rightarrow> (Inr u, h1)))
             else (Inr (), h)) of
        (Inl ret, h1) \<Rightarrow> (Inl ret, h1)
      | (Inr _, h1) \<Rightarrow>
      (let h2 = meson8b_dwmac_mask_bits PRG_ETH0 delay_mask dc h1
       in case (if phy_interface_mode_is_rgmii (phy_mode dwmac) then
                  (let h3 = meson8b_dwmac_mask_bits PRG_ETH0 PRG_ETH0_INVERTED_RMII_CLK 0 h2;
                       (ret, h4) = clk_set_rate k (rgmii_tx_clk dwmac) (125 * 1000 * 1000) h3
                   in if ret \<noteq> 0 then (Inl ret, dev_err ''failed to set RGMII TX clock'' h4)
                      else
                        (case meson8b_devm_clk_prepare_enable k dwmac (rgmii_tx_clk dwmac) h4 of
                           (Inl ret, h5) \<Rightarrow>
                             (Inl ret, dev_err ''failed to enable the RGMII TX clock'' h5)
                         | (Inr u, h5) \<Rightarrow> (Inr u, h5)))
                else
                  (Inr (), meson8b_dwmac_mask_bits PRG_ETH0 PRG_ETH0_INVERTED_RMII_CLK
                             PRG_ETH0_INVERTED_RMII_CLK h2)) of
            (Inl ret, h6) \<Rightarrow> (Inl ret, h6)
          | (Inr _, h6) \<Rightarrow>
              (Inr (), meson8b_dwmac_mask_bits PRG_ETH0 PRG_ETH0_TX_AND_PHY_REF_CLK
                         PRG_ETH0_TX_AND_PHY_REF_CLK h6))))"

subsection \<open>\<^verbatim>\<open>meson8b_dwmac_probe\<close> (lines 409--498)\<close>

text \<open>
  Lines 424--490, the steps whose failure jumps to \<^verbatim>\<open>err_remove_config_dt\<close>. On success
  the result is the \<^verbatim>\<open>dwmac\<close> stored in \<^verbatim>\<open>plat_dat->bsp_priv\<close>.
\<close>

definition probe_dwmac :: "kernel \<Rightarrow> hw \<Rightarrow> (int + meson8b_dwmac) \<times> hw" where
  "probe_dwmac k h =
     (if \<not> devm_kzalloc_dwmac k then (Inl (- ENOMEM), h)
      else case of_device_get_match_data k of
        None \<Rightarrow> (Inl (- EINVAL), h)
      | Some d \<Rightarrow>
      (case devm_platform_ioremap_resource k of
        Inl e \<Rightarrow> (Inl e, h)
      | Inr _ \<Rightarrow>
      (case of_get_phy_mode k of
        None \<Rightarrow> (Inl (- EINVAL), dev_err ''missing phy-mode property'' h)
      | Some m \<Rightarrow>
      (let tx = (case of_tx_delay_ns k of Some v \<Rightarrow> v | None \<Rightarrow> 2);
           rx = (case of_rx_delay_ns k of Some v \<Rightarrow> v | None \<Rightarrow> 0)
       in if rx \<noteq> 0 \<and> rx \<noteq> 2 then
            (Inl (- EINVAL), dev_err ''The only allowed RX delays values are: 0ns, 2ns'' h)
          else
      (let h1 = log (Devm_clk_get_optional ''timing-adjustment'') h
       in case devm_clk_get_optional k ''timing-adjustment'' of
        Inl e \<Rightarrow> (Inl e, h1)
      | Inr tc \<Rightarrow>
      (case meson8b_init_rgmii_tx_clk k
              \<lparr>data = d, phy_mode = m, rgmii_tx_clk = None, tx_delay_ns = tx,
               rx_delay_ns = rx, timing_adj_clk = tc\<rparr> h1 of
        (Inl ret, h2) \<Rightarrow> (Inl ret, h2)
      | (Inr dwmac, h2) \<Rightarrow>
      (case set_phy_mode (data dwmac) dwmac h2 of
        (Inl ret, h3) \<Rightarrow> (Inl ret, h3)
      | (Inr _, h3) \<Rightarrow>
      (case meson8b_init_prg_eth k dwmac h3 of
        (Inl ret, h4) \<Rightarrow> (Inl ret, h4)
      | (Inr _, h4) \<Rightarrow>
      (let h5 = log Stmmac_dvr_probe h4
       in if stmmac_dvr_probe k \<noteq> 0 then (Inl (stmmac_dvr_probe k), h5)
          else (Inr dwmac, h5))))))))))"

definition meson8b_dwmac_probe :: "kernel \<Rightarrow> hw \<Rightarrow> (int + meson8b_dwmac) \<times> hw" where
  "meson8b_dwmac_probe k h =
     (if stmmac_get_platform_resources k \<noteq> 0 then (Inl (stmmac_get_platform_resources k), h)
      else case stmmac_probe_config_dt k of
        Inl e \<Rightarrow> (Inl e, h)
      | Inr _ \<Rightarrow>
      (case probe_dwmac k h of
        (Inl ret, h1) \<Rightarrow> (Inl ret, log Stmmac_remove_config_dt h1)
      | (Inr dwmac, h1) \<Rightarrow> (Inr dwmac, h1)))"

subsection \<open>Reading the log\<close>

text \<open>The register accesses among the events.\<close>

fun is_io :: "event \<Rightarrow> bool" where
  "is_io (Readl reg v) = True"
| "is_io (Writel v reg) = True"
| "is_io _ = False"

text \<open>The events of the clock framework: getting, registering, setting and enabling clocks.\<close>

fun is_clk :: "event \<Rightarrow> bool" where
  "is_clk (Devm_clk_get n) = True"
| "is_clk (Devm_clk_get_optional n) = True"
| "is_clk (Devm_clk_register n ps c) = True"
| "is_clk (Clk_set_rate c r) = True"
| "is_clk (Clk_prepare_enable c) = True"
| "is_clk _ = False"

text \<open>
  Modelled from the spec: \<open>decode\<close>, the inverse of \<open>encode_tx_delay\<close>. The driver
  never reads the delay back; the comment of lines 35--38 gives the rule, the delay in ns
  is \<^verbatim>\<open>8ns / 4 * tx_dly_val\<close>, with \<^verbatim>\<open>tx_dly_val\<close> the field under
  \<^verbatim>\<open>PRG_ETH0_TXDLY_MASK\<close>.
\<close>

definition decode_tx_delay :: "u32 \<Rightarrow> u32" where
  "decode_tx_delay reg = 8 div 4 * FIELD_GET PRG_ETH0_TXDLY_MASK reg"

text \<open>
  The steps of \<^verbatim>\<open>meson8b_dwmac_probe\<close> before the delay properties are read (lines
  416--448) all succeed.
\<close>

definition probe_reaches_delays :: "kernel \<Rightarrow> bool" where
  "probe_reaches_delays k \<longleftrightarrow>
     stmmac_get_platform_resources k = 0 \<and> stmmac_probe_config_dt k = Inr () \<and>
     devm_kzalloc_dwmac k \<and> of_device_get_match_data k \<noteq> None \<and>
     devm_platform_ioremap_resource k = Inr () \<and> of_get_phy_mode k \<noteq> None"

subsection \<open>A concrete board\<close>

text \<open>
  A board of the newer chip family on which every outside call succeeds and the clock
  framework leaves the register block alone: RGMII, 2 ns transmit delay, no receive
  delay, no timing-adjustment clock. The registers start at zero.
\<close>

definition board :: kernel where
  "board =
     \<lparr>clk_set_rate_ret = (\<lambda>c rate. 0),
      clk_set_rate_io = (\<lambda>c rate r. r),
      clk_prepare_enable_ret = (\<lambda>c. 0),
      clk_prepare_enable_io = (\<lambda>c r. r),
      devm_add_action_or_reset_io = (\<lambda>c r. r),
      stmmac_get_platform_resources = 0,
      stmmac_probe_config_dt = Inr (),
      devm_kzalloc_dwmac = True,
      of_device_get_match_data = Some Meson_axg_dwmac_data,
      devm_platform_ioremap_resource = Inr (),
      of_get_phy_mode = Some PHY_INTERFACE_MODE_RGMII,
      of_tx_delay_ns = Some 2,
      of_rx_delay_ns = Some 0,
      devm_clk_get_optional = (\<lambda>n. Inr None),
      devm_kzalloc_clk_configs = True,
      devm_clk_get = (\<lambda>n. Inr (Clk 0)),
      clk_get_name = (\<lambda>c. ''clk''),
      dev_name = ''ethernet'',
      devm_clk_register = (\<lambda>n ps c. Inr (Clk 1)),
      stmmac_dvr_probe = 0\<rparr>"

definition reset_hw :: hw where
  "reset_hw = \<lparr>regs = (\<lambda>reg. 0), trace = []\<rparr>"

text \<open>The \<^verbatim>\<open>dwmac\<close> that probing this board fills in, for a mode and two delays.\<close>

definition board_dwmac :: "phy_interface_t \<Rightarrow> u32 \<Rightarrow> u32 \<Rightarrow> meson8b_dwmac" where
  "board_dwmac m tx rx =
     \<lparr>data = Meson_axg_dwmac_data, phy_mode = m, rgmii_tx_clk = Some (Clk 1),
      tx_delay_ns = tx, rx_delay_ns = rx, timing_adj_clk = None\<rparr>"

section \<open>Properties\<close>

subsection \<open>The register constants as numbers\<close>

lemma TXDLY_MASK_val: "PRG_ETH0_TXDLY_MASK = 0x60"
  unfolding PRG_ETH0_TXDLY_MASK_def by code_simp

lemma ADJ_DELAY_val: "PRG_ETH0_ADJ_DELAY = 0xF8000"
  unfolding PRG_ETH0_ADJ_DELAY_def by code_simp

lemma ADJ_SKEW_val: "PRG_ETH0_ADJ_SKEW = 0x1F00000"
  unfolding PRG_ETH0_ADJ_SKEW_def by code_simp

lemma EXT_PHY_MODE_MASK_val: "PRG_ETH0_EXT_PHY_MODE_MASK = 7"
  unfolding PRG_ETH0_EXT_PHY_MODE_MASK_def by code_simp

lemma RGMII_MODE_val: "PRG_ETH0_RGMII_MODE = 1"
  by (simp add: PRG_ETH0_RGMII_MODE_def BIT_def)

lemma INVERTED_RMII_CLK_val: "PRG_ETH0_INVERTED_RMII_CLK = 0x800"
  by (simp add: PRG_ETH0_INVERTED_RMII_CLK_def BIT_def)

lemma TX_AND_PHY_REF_CLK_val: "PRG_ETH0_TX_AND_PHY_REF_CLK = 0x1000"
  by (simp add: PRG_ETH0_TX_AND_PHY_REF_CLK_def BIT_def)

lemma ADJ_ENABLE_val: "PRG_ETH0_ADJ_ENABLE = 0x2000"
  by (simp add: PRG_ETH0_ADJ_ENABLE_def BIT_def)

lemma ADJ_SETUP_val: "PRG_ETH0_ADJ_SETUP = 0x4000"
  by (simp add: PRG_ETH0_ADJ_SETUP_def BIT_def)

lemma delay_mask_val: "delay_mask = 0x1FFE060"
  by (simp add: delay_mask_def TXDLY_MASK_val ADJ_ENABLE_val ADJ_SETUP_val ADJ_DELAY_val
      ADJ_SKEW_val)

lemma bit_numeral_upto:
  assumes "\<forall>i \<in> set [0..<32]. bit (w :: u32) i \<longleftrightarrow> i \<in> set xs"
      and "\<forall>i \<in> set xs. i < 32"
  shows "bit w i \<longleftrightarrow> i \<in> set xs"
proof (cases "i < 32")
  case True
  with assms(1) show ?thesis by simp
next
  case False
  then have "\<not> bit w i" by (auto dest: bit_imp_le_length)
  with False assms(2) show ?thesis by auto
qed

lemma bit_delay_mask:
  "bit delay_mask i \<longleftrightarrow> i \<in> {5, 6} \<union> {13, 14} \<union> {15..19} \<union> {20..24}"
proof -
  have "\<forall>i \<in> set [0..<32]. bit (0x1FFE060 :: u32) i \<longleftrightarrow>
          i \<in> set [5, 6, 13, 14, 15, 16, 17, 18, 19, 20, 21, 22, 23, 24]"
    by code_simp
  moreover have "\<forall>i \<in> set [5, 6, 13, 14, 15, 16, 17, 18, 19, 20, 21, 22, 23, 24]. i < (32::nat)"
    by simp
  ultimately have "bit (0x1FFE060 :: u32) i \<longleftrightarrow>
       i \<in> set [5, 6, 13, 14, 15, 16, 17, 18, 19, 20, 21, 22, 23, 24]"
    by (rule bit_numeral_upto)
  also have "\<dots> \<longleftrightarrow> i \<in> {5, 6} \<union> {13, 14} \<union> {15..19} \<union> {20..24}"
    by (simp add: atLeastAtMost_iff) arith
  finally show ?thesis by (simp only: delay_mask_val)
qed

lemma bit_TXDLY_MASK: "bit PRG_ETH0_TXDLY_MASK i \<longleftrightarrow> i \<in> {5, 6}"
proof -
  have "\<forall>i \<in> set [0..<32]. bit (0x60 :: u32) i \<longleftrightarrow> i \<in> set [5, 6]"
    by code_simp
  moreover have "\<forall>i \<in> set [5, 6]. i < (32::nat)" by simp
  ultimately have "bit (0x60 :: u32) i \<longleftrightarrow> i \<in> set [5, 6]"
    by (rule bit_numeral_upto)
  then show ?thesis by (simp add: TXDLY_MASK_val)
qed

lemma bit_EXT_PHY_MODE_MASK: "bit PRG_ETH0_EXT_PHY_MODE_MASK i \<longleftrightarrow> i \<in> {0, 1, 2}"
proof -
  have "\<forall>i \<in> set [0..<32]. bit (7 :: u32) i \<longleftrightarrow> i \<in> set [0, 1, 2]"
    by code_simp
  moreover have "\<forall>i \<in> set [0, 1, 2]. i < (32::nat)" by simp
  ultimately have "bit (7 :: u32) i \<longleftrightarrow> i \<in> set [0, 1, 2]"
    by (rule bit_numeral_upto)
  then show ?thesis by (simp add: EXT_PHY_MODE_MASK_val)
qed

lemma bit_BIT: "bit (BIT n) i \<longleftrightarrow> i = n \<and> n < 32"
  by (auto simp: BIT_def bit_simps)

subsection \<open>Words\<close>

lemma clear_then_set: "(x AND NOT m) OR m = x OR (m::u32)"
  by (rule bit_word_eqI) (auto simp: bit_and_iff bit_or_iff bit_not_iff)

lemma field_written: "((x AND NOT m) OR (v AND m)) AND m = v AND (m::u32)"
  by (rule bit_word_eqI) (auto simp: bit_and_iff bit_or_iff bit_not_iff)

lemma frame_kept: "((x AND NOT m) OR (v AND m)) AND NOT m = x AND NOT (m::u32)"
  by (rule bit_word_eqI) (auto simp: bit_and_iff bit_or_iff bit_not_iff)

lemma sub_field_written:
  "m' AND m = m' \<Longrightarrow> ((x AND NOT m) OR (v AND m)) AND m' = v AND (m'::u32)"
  by (rule bit_word_eqI) (auto simp: bit_and_iff bit_or_iff bit_not_iff bit_eq_iff)

lemma and_or_zero: "a AND m = 0 \<Longrightarrow> b AND m = 0 \<Longrightarrow> (a OR b) AND m = (0::u32)"
  by (simp add: bit.conj_disj_distrib2)

lemma and_or_same: "a AND m = a \<Longrightarrow> b AND m = b \<Longrightarrow> (a OR b) AND m = (a OR b :: u32)"
  by (simp add: bit.conj_disj_distrib2)

lemma bf_shf_TXDLY: "bf_shf 0x60 = 5"
  by code_simp

lemma txdly_mask_shifted: "(0x60::u32) = push_bit 5 (mask 2)"
  by (simp add: mask_eq_exp_minus_1)

lemma field_prep_txdly: "FIELD_PREP 0x60 v = push_bit 5 (take_bit 2 v)"
proof -
  have "FIELD_PREP 0x60 v = push_bit 5 v AND push_bit 5 (mask 2)"
    unfolding FIELD_PREP_def bf_shf_TXDLY by (simp only: txdly_mask_shifted)
  then show ?thesis by (simp flip: push_bit_and add: take_bit_eq_mask)
qed

lemma field_get_txdly: "FIELD_GET 0x60 (push_bit 5 (take_bit 2 v)) = take_bit 2 v"
proof -
  have "FIELD_GET 0x60 (push_bit 5 (take_bit 2 v)) =
        drop_bit 5 (push_bit 5 (take_bit 2 v) AND push_bit 5 (mask 2))"
    unfolding FIELD_GET_def bf_shf_TXDLY by (simp only: txdly_mask_shifted)
  also have "\<dots> = take_bit 2 v"
    by (rule bit_word_eqI) (auto simp: bit_simps)
  finally show ?thesis .
qed

lemma unat_shifted_field: "unat (take_bit 2 (drop_bit 1 (tx::u32))) = (unat tx div 2) mod 4"
  unfolding unsigned_take_bit_eq unat_drop_bit_eq
  by (simp add: take_bit_eq_mod drop_bit_eq_div)

lemma tx_field_of_normal:
  "take_bit 2 (drop_bit 1 (2 * take_bit 2 (drop_bit 1 (t::u32)))) = take_bit 2 (drop_bit 1 t)"
  by (rule bit_word_eqI) (auto simp: bit_simps)

lemma take_bit_2_cases: "take_bit 2 (y::u32) \<in> {0, 1, 2, 3}"
proof -
  have "unat (take_bit 2 y) < 4"
    unfolding unsigned_take_bit_eq by (simp add: take_bit_eq_mod)
  then have "unat (take_bit 2 y) \<in> {0, 1, 2, 3}" by auto
  then show ?thesis
    by (auto simp: word_unat_eq_iff)
qed

lemma normal_tx_in_range: "2 * take_bit 2 (drop_bit 1 (tx::u32)) \<in> {0, 2, 4, 6}"
  using take_bit_2_cases [of "drop_bit 1 tx"] by auto

subsection \<open>One register update\<close>

lemma mask_bits_eq:
  "meson8b_dwmac_mask_bits reg msk val h =
     h\<lparr>regs := (regs h)(reg := (regs h reg AND NOT msk) OR (val AND msk)),
       trace := trace h @ [Readl reg (regs h reg),
                           Writel ((regs h reg AND NOT msk) OR (val AND msk)) reg]\<rparr>"
  by (simp add: meson8b_dwmac_mask_bits_def readl_def writel_def log_def Let_def)

lemma mask_bits_field:
  "FIELD_GET msk (regs (meson8b_dwmac_mask_bits reg msk val h) reg) = FIELD_GET msk val"
proof -
  have "regs (meson8b_dwmac_mask_bits reg msk val h) reg AND msk = val AND msk"
    by (simp add: mask_bits_eq field_written)
  then show ?thesis by (simp only: FIELD_GET_def)
qed

lemma mask_bits_frame:
  "regs (meson8b_dwmac_mask_bits reg msk val h) reg AND NOT msk = regs h reg AND NOT msk"
  by (simp add: mask_bits_eq frame_kept)

lemma mask_bits_other:
  "reg' \<noteq> reg \<Longrightarrow> regs (meson8b_dwmac_mask_bits reg msk val h) reg' = regs h reg'"
  by (simp add: mask_bits_eq)

lemma regs_dev_err: "regs (dev_err fmt h) = regs h"
  by (simp add: dev_err_def log_def)

lemmas exec_defs = mask_bits_eq clk_set_rate_def clk_prepare_enable_def
  devm_add_action_or_reset_def meson8b_devm_clk_prepare_enable_def dev_err_def log_def Let_def

subsection \<open>The interface mode policies\<close>

lemma is_rgmii_iff:
  "phy_interface_mode_is_rgmii m \<longleftrightarrow>
     m \<in> {PHY_INTERFACE_MODE_RGMII, PHY_INTERFACE_MODE_RGMII_RXID,
       PHY_INTERFACE_MODE_RGMII_TXID, PHY_INTERFACE_MODE_RGMII_ID}"
  by (cases m) simp_all

lemma legacy_fields:
  "FIELD_GET PRG_ETH0_RGMII_MODE PRG_ETH0_RGMII_MODE = 1"
  "FIELD_GET PRG_ETH0_RGMII_MODE 0 = 0"
  unfolding RGMII_MODE_val by code_simp+

lemma extended_fields:
  "FIELD_GET PRG_ETH0_EXT_PHY_MODE_MASK PRG_ETH0_EXT_RGMII_MODE = 1"
  "FIELD_GET PRG_ETH0_EXT_PHY_MODE_MASK PRG_ETH0_EXT_RMII_MODE = 4"
  unfolding EXT_PHY_MODE_MASK_val PRG_ETH0_EXT_RGMII_MODE_def PRG_ETH0_EXT_RMII_MODE_def
  by code_simp+

lemma legacy_policy:
  assumes "meson8b_set_phy_mode dwmac h = (r, h')"
  shows "(if phy_interface_mode_is_rgmii (phy_mode dwmac) then
            r = Inr () \<and> FIELD_GET PRG_ETH0_RGMII_MODE (regs h' PRG_ETH0) = 1
          else if phy_mode dwmac = PHY_INTERFACE_MODE_RMII then
            r = Inr () \<and> FIELD_GET PRG_ETH0_RGMII_MODE (regs h' PRG_ETH0) = 0
          else r = Inl (- EINVAL) \<and> h' = dev_err ''fail to set phy-mode %s'' h)
       \<and> (\<forall>reg. reg \<noteq> PRG_ETH0 \<longrightarrow> regs h' reg = regs h reg)
       \<and> regs h' PRG_ETH0 AND NOT PRG_ETH0_RGMII_MODE =
           regs h PRG_ETH0 AND NOT PRG_ETH0_RGMII_MODE"
  using assms unfolding meson8b_set_phy_mode_def
  by (cases "phy_mode dwmac")
     (auto simp: mask_bits_field mask_bits_frame mask_bits_other regs_dev_err legacy_fields)

lemma extended_policy:
  assumes "meson_axg_set_phy_mode dwmac h = (r, h')"
  shows "(if phy_interface_mode_is_rgmii (phy_mode dwmac) then
            r = Inr () \<and> FIELD_GET PRG_ETH0_EXT_PHY_MODE_MASK (regs h' PRG_ETH0) = 1
          else if phy_mode dwmac = PHY_INTERFACE_MODE_RMII then
            r = Inr () \<and> FIELD_GET PRG_ETH0_EXT_PHY_MODE_MASK (regs h' PRG_ETH0) = 4
          else r = Inl (- EINVAL) \<and> h' = dev_err ''fail to set phy-mode %s'' h)
       \<and> (\<forall>reg. reg \<noteq> PRG_ETH0 \<longrightarrow> regs h' reg = regs h reg)
       \<and> regs h' PRG_ETH0 AND NOT PRG_ETH0_EXT_PHY_MODE_MASK =
           regs h PRG_ETH0 AND NOT PRG_ETH0_EXT_PHY_MODE_MASK"
  using assms unfolding meson_axg_set_phy_mode_def
  by (cases "phy_mode dwmac")
     (auto simp: mask_bits_field mask_bits_frame mask_bits_other regs_dev_err extended_fields)

subsection \<open>The delay values\<close>

lemma rx_adj_enabled:
  "(rx_dly_config dwmac AND PRG_ETH0_ADJ_ENABLE \<noteq> 0) = (rx_delay_ns dwmac = 2)"
  by (simp add: rx_dly_config_def ADJ_ENABLE_val ADJ_SETUP_val)

lemma rx_dly_config_val: "rx_dly_config dwmac = (if rx_delay_ns dwmac = 2 then 0x6000 else 0)"
  by (simp add: rx_dly_config_def ADJ_ENABLE_val ADJ_SETUP_val)

lemma tx_dly_config_val:
  "tx_dly_config dwmac = push_bit 5 (take_bit 2 (drop_bit 1 (tx_delay_ns dwmac)))"
  by (simp add: tx_dly_config_def TXDLY_MASK_val field_prep_txdly)

lemma tx_dly_config_in_field: "tx_dly_config dwmac AND NOT PRG_ETH0_TXDLY_MASK = 0"
  unfolding tx_dly_config_def FIELD_PREP_def
  by (rule bit_word_eqI) (auto simp: bit_and_iff bit_not_iff)

lemma tx_dly_config_field:
  "unat (FIELD_GET PRG_ETH0_TXDLY_MASK (tx_dly_config dwmac)) =
     (unat (tx_delay_ns dwmac) div 2) mod 4"
  unfolding tx_dly_config_val TXDLY_MASK_val field_get_txdly by (rule unat_shifted_field)

lemma txdly_in_delay_mask: "PRG_ETH0_TXDLY_MASK AND delay_mask = PRG_ETH0_TXDLY_MASK"
  by (simp add: delay_mask_val TXDLY_MASK_val)

lemma field_get_txdly_written:
  "FIELD_GET PRG_ETH0_TXDLY_MASK ((x AND NOT delay_mask) OR (v AND delay_mask)) =
   FIELD_GET PRG_ETH0_TXDLY_MASK v"
  by (simp only: FIELD_GET_def sub_field_written [OF txdly_in_delay_mask])

lemma rx_dly_outside_txdly: "rx_dly_config dwmac AND PRG_ETH0_TXDLY_MASK = 0"
  by (simp add: rx_dly_config_val TXDLY_MASK_val)

lemma field_get_tx_or_rx:
  "FIELD_GET PRG_ETH0_TXDLY_MASK (tx_dly_config dwmac OR rx_dly_config dwmac) =
   FIELD_GET PRG_ETH0_TXDLY_MASK (tx_dly_config dwmac)"
  by (simp only: FIELD_GET_def bit.conj_disj_distrib2 rx_dly_outside_txdly or.right_neutral)

lemma tx_rx_in_mask:
  "tx_dly_config dwmac AND delay_mask = tx_dly_config dwmac"
  "rx_dly_config dwmac AND delay_mask = rx_dly_config dwmac"
  "tx_dly_config dwmac AND (PRG_ETH0_ADJ_DELAY OR PRG_ETH0_ADJ_SKEW) = 0"
  "rx_dly_config dwmac AND (PRG_ETH0_ADJ_DELAY OR PRG_ETH0_ADJ_SKEW) = 0"
proof -
  have "tx_dly_config dwmac AND PRG_ETH0_TXDLY_MASK = tx_dly_config dwmac"
    by (simp add: tx_dly_config_def FIELD_PREP_def and.assoc)
  then have t: "tx_dly_config dwmac = tx_dly_config dwmac AND 0x60"
    by (simp add: TXDLY_MASK_val)
  show "tx_dly_config dwmac AND delay_mask = tx_dly_config dwmac"
    by (subst (1 2) t) (simp add: delay_mask_val and.assoc)
  show "tx_dly_config dwmac AND (PRG_ETH0_ADJ_DELAY OR PRG_ETH0_ADJ_SKEW) = 0"
    by (subst t) (simp add: ADJ_DELAY_val ADJ_SKEW_val and.assoc)
  show "rx_dly_config dwmac AND delay_mask = rx_dly_config dwmac"
    by (simp add: rx_dly_config_val delay_mask_val)
  show "rx_dly_config dwmac AND (PRG_ETH0_ADJ_DELAY OR PRG_ETH0_ADJ_SKEW) = 0"
    by (simp add: rx_dly_config_val ADJ_DELAY_val ADJ_SKEW_val)
qed

lemma delay_config_None_iff:
  "delay_config dwmac = None \<longleftrightarrow>
     phy_mode dwmac \<notin> {PHY_INTERFACE_MODE_RGMII, PHY_INTERFACE_MODE_RGMII_RXID,
       PHY_INTERFACE_MODE_RGMII_TXID, PHY_INTERFACE_MODE_RGMII_ID, PHY_INTERFACE_MODE_RMII}"
  by (cases "phy_mode dwmac") (simp_all add: delay_config_def)

lemma delay_config_tx_update:
  "(delay_config (dwmac\<lparr>tx_delay_ns := tx\<rparr>) = None) = (delay_config dwmac = None)"
  by (simp add: delay_config_None_iff)

lemma delay_config_Some:
  assumes "delay_config dwmac = Some v"
  shows "v AND delay_mask = v"
    and "v AND (PRG_ETH0_ADJ_DELAY OR PRG_ETH0_ADJ_SKEW) = 0"
    and "v = (case phy_mode dwmac of
                PHY_INTERFACE_MODE_RGMII \<Rightarrow> tx_dly_config dwmac OR rx_dly_config dwmac
              | PHY_INTERFACE_MODE_RGMII_RXID \<Rightarrow> tx_dly_config dwmac
              | PHY_INTERFACE_MODE_RGMII_TXID \<Rightarrow> rx_dly_config dwmac
              | _ \<Rightarrow> 0)"
  using assms unfolding delay_config_def
  by (cases "phy_mode dwmac"; auto simp: tx_rx_in_mask and_or_zero and_or_same)+

lemma written_subfields_zero:
  assumes "v AND delay_mask = v" and "v AND (PRG_ETH0_ADJ_DELAY OR PRG_ETH0_ADJ_SKEW) = 0"
  shows "((x AND NOT delay_mask) OR v) AND (PRG_ETH0_ADJ_DELAY OR PRG_ETH0_ADJ_SKEW) = 0"
proof -
  have "(PRG_ETH0_ADJ_DELAY OR PRG_ETH0_ADJ_SKEW) AND delay_mask =
        PRG_ETH0_ADJ_DELAY OR PRG_ETH0_ADJ_SKEW"
    by (simp add: delay_mask_val ADJ_DELAY_val ADJ_SKEW_val)
  from sub_field_written [OF this, of x v] assms show ?thesis by simp
qed

lemma bit_clk_bits:
  "bit (x OR PRG_ETH0_TX_AND_PHY_REF_CLK) 12"
  "bit (x OR PRG_ETH0_INVERTED_RMII_CLK) 11"
  "\<not> bit (x AND NOT PRG_ETH0_INVERTED_RMII_CLK) 11"
  "bit (x OR PRG_ETH0_TX_AND_PHY_REF_CLK) 11 = bit x 11"
  by (simp_all add: bit_or_iff bit_and_iff bit_not_iff bit_BIT
      PRG_ETH0_TX_AND_PHY_REF_CLK_def PRG_ETH0_INVERTED_RMII_CLK_def)

subsection \<open>The paths through \<^verbatim>\<open>meson8b_init_prg_eth\<close>\<close>

text \<open>The return value, by its causes in the order the function meets them.\<close>

lemma init_prg_eth_result:
  "fst (meson8b_init_prg_eth k dwmac h) =
     (if delay_config dwmac = None then Inl (- EINVAL)
      else if rx_delay_ns dwmac = 2 \<and> timing_adj_clk dwmac = None then Inl (- EINVAL)
      else if rx_delay_ns dwmac = 2 \<and> clk_prepare_enable_ret k (timing_adj_clk dwmac) \<noteq> 0
        then Inl (clk_prepare_enable_ret k (timing_adj_clk dwmac))
      else if \<not> phy_interface_mode_is_rgmii (phy_mode dwmac) then Inr ()
      else if clk_set_rate_ret k (rgmii_tx_clk dwmac) 125000000 \<noteq> 0
        then Inl (clk_set_rate_ret k (rgmii_tx_clk dwmac) 125000000)
      else if clk_prepare_enable_ret k (rgmii_tx_clk dwmac) \<noteq> 0
        then Inl (clk_prepare_enable_ret k (rgmii_tx_clk dwmac))
      else Inr ())"
  unfolding meson8b_init_prg_eth_def rx_adj_enabled
  by (auto simp: exec_defs split: option.splits prod.splits sum.splits)

lemma init_prg_eth_reaches_write:
  assumes "delay_config dwmac = Some v"
      and "\<not> (rx_delay_ns dwmac = 2 \<and>
              (timing_adj_clk dwmac = None \<or>
               clk_prepare_enable_ret k (timing_adj_clk dwmac) \<noteq> 0))"
  shows "\<exists>old rest tl o3. trace (snd (meson8b_init_prg_eth k dwmac h)) =
           trace h @
           (if rx_delay_ns dwmac = 2
            then [Clk_prepare_enable (timing_adj_clk dwmac),
                  Devm_add_action_or_reset (rgmii_tx_clk dwmac)]
            else []) @
           Readl PRG_ETH0 old # Writel ((old AND NOT delay_mask) OR v) PRG_ETH0 # rest
         \<and> filter is_io rest =
             Readl PRG_ETH0 ((old AND NOT delay_mask) OR v) #
             Writel (if phy_interface_mode_is_rgmii (phy_mode dwmac)
                     then ((old AND NOT delay_mask) OR v) AND NOT PRG_ETH0_INVERTED_RMII_CLK
                     else ((old AND NOT delay_mask) OR v) OR PRG_ETH0_INVERTED_RMII_CLK)
               PRG_ETH0 # tl
         \<and> (tl = [] \<or> tl = [Readl PRG_ETH0 o3,
                              Writel (o3 OR PRG_ETH0_TX_AND_PHY_REF_CLK) PRG_ETH0])"
  using assms delay_config_Some(1) [OF assms(1)]
  unfolding meson8b_init_prg_eth_def rx_adj_enabled
  by (auto simp: exec_defs clear_then_set split: option.splits prod.splits sum.splits)

lemma init_prg_eth_stops_at_timing_adj:
  assumes "delay_config dwmac = Some v"
      and "rx_delay_ns dwmac = 2 \<and>
              (timing_adj_clk dwmac = None \<or>
               clk_prepare_enable_ret k (timing_adj_clk dwmac) \<noteq> 0)"
  shows "\<exists>evs. trace (snd (meson8b_init_prg_eth k dwmac h)) = trace h @ evs \<and>
           (\<forall>ev \<in> set evs. \<not> is_io ev)"
  using assms
  unfolding meson8b_init_prg_eth_def rx_adj_enabled
  by (auto simp: exec_defs clear_then_set split: option.splits prod.splits sum.splits)

lemma init_prg_eth_extends:
  "\<exists>es. trace (snd (meson8b_init_prg_eth k dwmac h)) = trace h @ es"
  unfolding meson8b_init_prg_eth_def rx_adj_enabled
  by (auto simp: exec_defs split: option.splits prod.splits sum.splits)

lemma init_prg_eth_tx:
  assumes "tx_dly_config (dwmac\<lparr>tx_delay_ns := t\<rparr>) = tx_dly_config dwmac"
  shows "meson8b_init_prg_eth k (dwmac\<lparr>tx_delay_ns := t\<rparr>) h = meson8b_init_prg_eth k dwmac h"
proof -
  have r: "rx_dly_config (dwmac\<lparr>tx_delay_ns := t\<rparr>) = rx_dly_config dwmac"
    by (simp add: rx_dly_config_def)
  with assms have d: "delay_config (dwmac\<lparr>tx_delay_ns := t\<rparr>) = delay_config dwmac"
    by (simp add: delay_config_def split: phy_interface_t.splits)
  have e: "meson8b_devm_clk_prepare_enable k (dwmac\<lparr>tx_delay_ns := t\<rparr>) c h' =
           meson8b_devm_clk_prepare_enable k dwmac c h'" for c h'
    by (simp add: meson8b_devm_clk_prepare_enable_def split: prod.splits)
  have f: "phy_mode (dwmac\<lparr>tx_delay_ns := t\<rparr>) = phy_mode dwmac"
    "rgmii_tx_clk (dwmac\<lparr>tx_delay_ns := t\<rparr>) = rgmii_tx_clk dwmac"
    "timing_adj_clk (dwmac\<lparr>tx_delay_ns := t\<rparr>) = timing_adj_clk dwmac"
    by simp_all
  show ?thesis
    unfolding meson8b_init_prg_eth_def d r e f by (rule refl)
qed

lemma init_prg_eth_kernel [simp]:
  "meson8b_init_prg_eth (k\<lparr>of_tx_delay_ns := x\<rparr>) dwmac h = meson8b_init_prg_eth k dwmac h"
  by (auto simp: meson8b_init_prg_eth_def clk_set_rate_def clk_prepare_enable_def
      devm_add_action_or_reset_def meson8b_devm_clk_prepare_enable_def Let_def
      split: option.splits sum.splits prod.splits)

subsection \<open>The steps of \<^verbatim>\<open>meson8b_dwmac_probe\<close>\<close>

lemma indices: "[0..<MUX_CLK_NUM_PARENTS] = [0, 1]"
  by (simp add: MUX_CLK_NUM_PARENTS_def upt_rec)

lemma mux_parents_extends: "\<exists>es. trace (snd (mux_parents k idx h)) = trace h @ es"
proof (induction idx arbitrary: h)
  case Nil
  show ?case by simp
next
  case (Cons i idx)
  obtain es where
    "trace (snd (mux_parents k idx
       (log (Devm_clk_get (take 15 (''clkin'' @ string_of_nat i))) h))) =
     trace (log (Devm_clk_get (take 15 (''clkin'' @ string_of_nat i))) h) @ es"
    using Cons.IH by blast
  then show ?case
    by (auto simp: Let_def log_def dev_err_def split: sum.splits prod.splits)
qed

lemma mux_parents_kernel [simp]:
  "mux_parents (k\<lparr>of_tx_delay_ns := x\<rparr>) idx h = mux_parents k idx h"
  by (induction idx arbitrary: h) (simp_all add: Let_def split: sum.splits prod.splits)

lemma init_rgmii_tx_clk_extends:
  "\<exists>es. trace (snd (meson8b_init_rgmii_tx_clk k dwmac h)) = trace h @ es"
proof -
  have step: "\<And>n ps c h r h'. meson8b_dwmac_register_clk k n ps c h = (r, h') \<Longrightarrow>
      trace h' = trace h @ [Devm_clk_register (take 31 (dev_name k @ ''#'' @ n)) ps c]"
    by (auto simp: meson8b_dwmac_register_clk_def Let_def log_def)
  obtain es where es: "trace (snd (mux_parents k [0..<MUX_CLK_NUM_PARENTS] h)) = trace h @ es"
    using mux_parents_extends by blast
  show ?thesis
    unfolding meson8b_init_rgmii_tx_clk_def
    using es by (auto simp: Let_def split: sum.splits prod.splits dest!: step)
qed

lemma init_rgmii_tx_clk_kernel [simp]:
  "meson8b_init_rgmii_tx_clk (k\<lparr>of_tx_delay_ns := x\<rparr>) dwmac h =
   meson8b_init_rgmii_tx_clk k dwmac h"
  by (simp add: meson8b_init_rgmii_tx_clk_def meson8b_dwmac_register_clk_def Let_def
      split: sum.splits prod.splits)

lemma init_rgmii_tx_clk_tx:
  "meson8b_init_rgmii_tx_clk k (dwmac\<lparr>tx_delay_ns := t\<rparr>) h =
     map_prod (map_sum id (tx_delay_ns_update (\<lambda>_. t))) id
       (meson8b_init_rgmii_tx_clk k dwmac h)"
  by (auto simp: meson8b_init_rgmii_tx_clk_def Let_def split: sum.splits prod.splits)

lemma init_rgmii_tx_clk_fields:
  "meson8b_init_rgmii_tx_clk k dwmac h = (Inr dw, h') \<Longrightarrow>
     dw = dwmac\<lparr>rgmii_tx_clk := rgmii_tx_clk dw\<rparr>"
  by (auto simp: meson8b_init_rgmii_tx_clk_def Let_def split: sum.splits prod.splits if_splits)

lemma set_phy_mode_extends:
  "\<exists>es. trace (snd (set_phy_mode d dwmac h)) = trace h @ es"
  by (cases d; cases "phy_mode dwmac")
     (simp_all add: meson8b_set_phy_mode_def meson_axg_set_phy_mode_def mask_bits_eq
        dev_err_def log_def)

lemma set_phy_mode_tx:
  "set_phy_mode d (dwmac\<lparr>tx_delay_ns := t\<rparr>) h = set_phy_mode d dwmac h"
  by (cases d) (simp_all add: meson8b_set_phy_mode_def meson_axg_set_phy_mode_def)

lemma probe_after_rx_check:
  assumes "devm_kzalloc_dwmac k" and "of_device_get_match_data k = Some d"
      and "devm_platform_ioremap_resource k = Inr ()" and "of_get_phy_mode k = Some m"
      and "of_rx_delay_ns k \<in> {None, Some 0, Some 2}"
  shows "\<exists>rest. trace (snd (probe_dwmac k h)) =
           trace h @ Devm_clk_get_optional ''timing-adjustment'' # rest"
proof -
  let ?h1 = "log (Devm_clk_get_optional ''timing-adjustment'') h"
  have rx: "(case of_rx_delay_ns k of Some v \<Rightarrow> v | None \<Rightarrow> 0) \<in> {0, 2}"
    using assms(5) by auto
  have t1: "trace ?h1 = trace h @ [Devm_clk_get_optional ''timing-adjustment'']"
    by (simp add: log_def)
  show ?thesis
  proof (cases "devm_clk_get_optional k ''timing-adjustment''")
    case (Inl e)
    with assms rx show ?thesis
      by (auto simp: probe_dwmac_def Let_def log_def)
  next
    case (Inr tc)
    let ?dw = "\<lparr>data = d, phy_mode = m, rgmii_tx_clk = None,
                tx_delay_ns = (case of_tx_delay_ns k of Some v \<Rightarrow> v | None \<Rightarrow> 2),
                rx_delay_ns = (case of_rx_delay_ns k of Some v \<Rightarrow> v | None \<Rightarrow> 0),
                timing_adj_clk = tc\<rparr>"
    obtain r2 h2 where i2: "meson8b_init_rgmii_tx_clk k ?dw ?h1 = (r2, h2)"
      by (cases "meson8b_init_rgmii_tx_clk k ?dw ?h1")
    obtain e2 where e2: "trace h2 = trace ?h1 @ e2"
      using init_rgmii_tx_clk_extends [of k ?dw ?h1] i2 by auto
    show ?thesis
    proof (cases r2)
      case (Inl e)
      with assms rx Inr i2 e2 t1 show ?thesis
        by (auto simp: probe_dwmac_def Let_def)
    next
      case r2: (Inr dwmac)
      obtain r3 h3 where i3: "set_phy_mode (data dwmac) dwmac h2 = (r3, h3)"
        by (cases "set_phy_mode (data dwmac) dwmac h2")
      obtain e3 where e3: "trace h3 = trace h2 @ e3"
        using set_phy_mode_extends [of "data dwmac" dwmac h2] i3 by auto
      obtain r4 h4 where i4: "meson8b_init_prg_eth k dwmac h3 = (r4, h4)"
        by (cases "meson8b_init_prg_eth k dwmac h3")
      obtain e4 where e4: "trace h4 = trace h3 @ e4"
        using init_prg_eth_extends [of k dwmac h3] i4 by auto
      from assms rx Inr i2 r2 i3 i4 e2 e3 e4 t1 show ?thesis
        by (auto simp: probe_dwmac_def Let_def log_def split: sum.splits)
    qed
  qed
qed

lemma probe_rx_rejected:
  assumes "devm_kzalloc_dwmac k" and "of_device_get_match_data k = Some d"
      and "devm_platform_ioremap_resource k = Inr ()" and "of_get_phy_mode k = Some m"
      and "of_rx_delay_ns k \<notin> {None, Some 0, Some 2}"
  shows "probe_dwmac k h =
           (Inl (- EINVAL), dev_err ''The only allowed RX delays values are: 0ns, 2ns'' h)"
  using assms by (auto simp: probe_dwmac_def Let_def split: option.splits)

text \<open>
  A transmit delay reaches the hardware only through its encoding: probing with any
  value is probing with the value in range that has the same field, except for the value
  kept in \<^verbatim>\<open>dwmac->tx_delay_ns\<close>.
\<close>

lemma probe_dwmac_tx:
  "probe_dwmac (k\<lparr>of_tx_delay_ns := Some tx\<rparr>) h =
     map_prod (map_sum id (tx_delay_ns_update (\<lambda>_. tx))) id
       (probe_dwmac (k\<lparr>of_tx_delay_ns := Some (2 * take_bit 2 (drop_bit 1 tx))\<rparr>) h)"
proof -
  let ?n = "2 * take_bit 2 (drop_bit 1 tx)"
  let ?kA = "k\<lparr>of_tx_delay_ns := Some tx\<rparr>" and ?kB = "k\<lparr>of_tx_delay_ns := Some ?n\<rparr>"
  let ?rx = "case of_rx_delay_ns k of Some v \<Rightarrow> v | None \<Rightarrow> 0"
  let ?h1 = "log (Devm_clk_get_optional ''timing-adjustment'') h"
  consider (early) "\<not> devm_kzalloc_dwmac k \<or> of_device_get_match_data k = None \<or>
        (\<exists>e. devm_platform_ioremap_resource k = Inl e) \<or> of_get_phy_mode k = None \<or>
        (?rx \<noteq> 0 \<and> ?rx \<noteq> 2) \<or> (\<exists>e. devm_clk_get_optional k ''timing-adjustment'' = Inl e)"
    | (main) d m tc where "devm_kzalloc_dwmac k" "of_device_get_match_data k = Some d"
        "devm_platform_ioremap_resource k = Inr ()" "of_get_phy_mode k = Some m"
        "\<not> (?rx \<noteq> 0 \<and> ?rx \<noteq> 2)" "devm_clk_get_optional k ''timing-adjustment'' = Inr tc"
    by (cases "of_device_get_match_data k"; cases "devm_platform_ioremap_resource k";
        cases "of_get_phy_mode k"; cases "devm_clk_get_optional k ''timing-adjustment''") auto
  then show ?thesis
  proof cases
    case early
    then show ?thesis
      by (auto simp: probe_dwmac_def Let_def split: option.splits sum.splits)
  next
    case main
    let ?dwB = "\<lparr>data = d, phy_mode = m, rgmii_tx_clk = None, tx_delay_ns = ?n,
                 rx_delay_ns = ?rx, timing_adj_clk = tc\<rparr>"
    let ?dwA = "?dwB\<lparr>tx_delay_ns := tx\<rparr>"
    let ?tail = "\<lambda>r2 h2. case r2 of Inl ret \<Rightarrow> (Inl ret, h2)
       | Inr dwmac \<Rightarrow>
         (case set_phy_mode (data dwmac) dwmac h2 of
            (Inl ret, h3) \<Rightarrow> (Inl ret, h3)
          | (Inr _, h3) \<Rightarrow>
            (case meson8b_init_prg_eth k dwmac h3 of
               (Inl ret, h4) \<Rightarrow> (Inl ret, h4)
             | (Inr _, h4) \<Rightarrow>
               (let h5 = log Stmmac_dvr_probe h4
                in if stmmac_dvr_probe k \<noteq> 0 then (Inl (stmmac_dvr_probe k), h5)
                   else (Inr dwmac, h5))))"
    obtain r2 h2 where i2: "meson8b_init_rgmii_tx_clk k ?dwB ?h1 = (r2, h2)"
      by (cases "meson8b_init_rgmii_tx_clk k ?dwB ?h1")
    have iA: "meson8b_init_rgmii_tx_clk k ?dwA ?h1 =
                (map_sum id (tx_delay_ns_update (\<lambda>_. tx)) r2, h2)"
      unfolding init_rgmii_tx_clk_tx i2 by simp
    have pB: "probe_dwmac ?kB h = ?tail r2 h2"
      using main i2 by (auto simp: probe_dwmac_def Let_def split: sum.splits prod.splits)
    have pA: "probe_dwmac ?kA h = ?tail (map_sum id (tx_delay_ns_update (\<lambda>_. tx)) r2) h2"
      using main iA by (auto simp: probe_dwmac_def Let_def split: sum.splits prod.splits)
    show ?thesis
    proof (cases r2)
      case (Inl e)
      then show ?thesis unfolding pA pB by simp
    next
      case (Inr dwmac)
      have "tx_delay_ns dwmac = ?n"
        using init_rgmii_tx_clk_fields [OF i2 [unfolded Inr]]
        by (metis meson8b_dwmac.select_convs(4) meson8b_dwmac.simps)
      then have "tx_dly_config dwmac =
          push_bit 5 (take_bit 2 (drop_bit 1 (2 * take_bit 2 (drop_bit 1 tx))))"
        by (simp add: tx_dly_config_val)
      moreover have "tx_dly_config (dwmac\<lparr>tx_delay_ns := tx\<rparr>) =
          push_bit 5 (take_bit 2 (drop_bit 1 tx))"
        by (simp add: tx_dly_config_val)
      ultimately have "tx_dly_config (dwmac\<lparr>tx_delay_ns := tx\<rparr>) = tx_dly_config dwmac"
        by (simp only: tx_field_of_normal)
      note e = init_prg_eth_tx [OF this]
      show ?thesis unfolding pA pB Inr
        by (simp add: e set_phy_mode_tx Let_def split: sum.splits prod.splits)
    qed
  qed
qed

lemmas run_defs = meson8b_dwmac_probe_def probe_dwmac_def meson8b_init_rgmii_tx_clk_def indices
  meson8b_dwmac_register_clk_def meson8b_set_phy_mode_def meson_axg_set_phy_mode_def
  meson8b_init_prg_eth_def rx_adj_enabled delay_config_def exec_defs

lemmas board_defs = board_def reset_hw_def board_dwmac_def

lemmas val_defs = tx_dly_config_val rx_dly_config_val EXT_PHY_MODE_MASK_val RGMII_MODE_val
  PRG_ETH0_EXT_RGMII_MODE_def PRG_ETH0_EXT_RMII_MODE_def delay_mask_val INVERTED_RMII_CLK_val
  TX_AND_PHY_REF_CLK_val PRG_ETH0_def

lemma probe_rx_rejected_early:
  assumes "of_rx_delay_ns k \<notin> {None, Some 0, Some 2}"
  shows "\<exists>e es. probe_dwmac k h = (Inl e, h\<lparr>trace := trace h @ es\<rparr>) \<and>
           (\<forall>ev \<in> set es. \<not> is_io ev \<and> \<not> is_clk ev)"
proof -
  have "(\<exists>e. probe_dwmac k h = (Inl e, h)) \<or> (\<exists>e s. probe_dwmac k h = (Inl e, dev_err s h))"
    using assms by (auto simp: probe_dwmac_def Let_def split: option.splits sum.splits)
  then show ?thesis
  proof
    assume "\<exists>e. probe_dwmac k h = (Inl e, h)"
    then obtain e where "probe_dwmac k h = (Inl e, h\<lparr>trace := trace h @ []\<rparr>)" by auto
    then show ?thesis by (intro exI [of _ e] exI [of _ "[]"]) simp
  next
    assume "\<exists>e s. probe_dwmac k h = (Inl e, dev_err s h)"
    then obtain e s where "probe_dwmac k h = (Inl e, h\<lparr>trace := trace h @ [Dev_err s]\<rparr>)"
      by (auto simp: dev_err_def log_def)
    then show ?thesis by (intro exI [of _ e] exI [of _ "[Dev_err s]"]) simp
  qed
qed

subsection \<open>The clock steps and the transmit field of the delay word\<close>

lemma init_prg_eth_success_log:
  assumes "meson8b_init_prg_eth k dwmac h = (Inr (), h')"
  shows "\<exists>old d d2 o3.
     trace h' = trace h @
       (if rx_delay_ns dwmac = 2
        then [Clk_prepare_enable (timing_adj_clk dwmac),
              Devm_add_action_or_reset (rgmii_tx_clk dwmac)]
        else []) @
       [Readl PRG_ETH0 old, Writel d PRG_ETH0, Readl PRG_ETH0 d, Writel d2 PRG_ETH0] @
       (if phy_interface_mode_is_rgmii (phy_mode dwmac) then
          [Clk_set_rate (rgmii_tx_clk dwmac) 125000000,
           Clk_prepare_enable (rgmii_tx_clk dwmac),
           Devm_add_action_or_reset (rgmii_tx_clk dwmac)]
        else []) @
       [Readl PRG_ETH0 o3, Writel (o3 OR PRG_ETH0_TX_AND_PHY_REF_CLK) PRG_ETH0]
     \<and> (if phy_interface_mode_is_rgmii (phy_mode dwmac) then
          d2 = d AND NOT PRG_ETH0_INVERTED_RMII_CLK \<and> \<not> bit d2 11 \<and>
          clk_set_rate_ret k (rgmii_tx_clk dwmac) 125000000 = 0 \<and>
          clk_prepare_enable_ret k (rgmii_tx_clk dwmac) = 0
        else
          phy_mode dwmac = PHY_INTERFACE_MODE_RMII \<and>
          d2 = d OR PRG_ETH0_INVERTED_RMII_CLK \<and> bit d2 11 \<and> o3 = d2 \<and>
          bit (regs h' PRG_ETH0) 11)
     \<and> regs h' PRG_ETH0 = o3 OR PRG_ETH0_TX_AND_PHY_REF_CLK
     \<and> bit (regs h' PRG_ETH0) 12"
proof -
  have "delay_config dwmac \<noteq> None"
    using assms by (cases "delay_config dwmac") (simp_all add: meson8b_init_prg_eth_def)
  then have m: "phy_interface_mode_is_rgmii (phy_mode dwmac) \<or>
                phy_mode dwmac = PHY_INTERFACE_MODE_RMII"
    unfolding delay_config_None_iff is_rgmii_iff by auto
  show ?thesis
    using assms m unfolding meson8b_init_prg_eth_def rx_adj_enabled
    by (auto simp: exec_defs clear_then_set bit_clk_bits
             split: option.splits if_splits prod.splits sum.splits)
qed

lemma init_prg_eth_succeeds_iff:
  "fst (meson8b_init_prg_eth k dwmac h) = Inr () \<longleftrightarrow>
     phy_mode dwmac \<in> {PHY_INTERFACE_MODE_RGMII, PHY_INTERFACE_MODE_RGMII_RXID,
       PHY_INTERFACE_MODE_RGMII_TXID, PHY_INTERFACE_MODE_RGMII_ID, PHY_INTERFACE_MODE_RMII} \<and>
     \<not> (rx_delay_ns dwmac = 2 \<and>
        (timing_adj_clk dwmac = None \<or>
         clk_prepare_enable_ret k (timing_adj_clk dwmac) \<noteq> 0)) \<and>
     (phy_interface_mode_is_rgmii (phy_mode dwmac) \<longrightarrow>
        clk_set_rate_ret k (rgmii_tx_clk dwmac) 125000000 = 0 \<and>
        clk_prepare_enable_ret k (rgmii_tx_clk dwmac) = 0)"
  unfolding init_prg_eth_result delay_config_None_iff
  by (simp del: insert_iff)

lemma init_prg_eth_rgmii_sets_rate:
  assumes "phy_interface_mode_is_rgmii (phy_mode dwmac)"
      and "\<not> (rx_delay_ns dwmac = 2 \<and>
              (timing_adj_clk dwmac = None \<or>
               clk_prepare_enable_ret k (timing_adj_clk dwmac) \<noteq> 0))"
  shows "\<exists>old d rest.
     trace (snd (meson8b_init_prg_eth k dwmac h)) = trace h @
       (if rx_delay_ns dwmac = 2
        then [Clk_prepare_enable (timing_adj_clk dwmac),
              Devm_add_action_or_reset (rgmii_tx_clk dwmac)]
        else []) @
       [Readl PRG_ETH0 old, Writel d PRG_ETH0, Readl PRG_ETH0 d,
        Writel (d AND NOT PRG_ETH0_INVERTED_RMII_CLK) PRG_ETH0,
        Clk_set_rate (rgmii_tx_clk dwmac) 125000000] @
       (if clk_set_rate_ret k (rgmii_tx_clk dwmac) 125000000 \<noteq> 0
        then [Dev_err ''failed to set RGMII TX clock'']
        else Clk_prepare_enable (rgmii_tx_clk dwmac) # rest)"
proof -
  from assms(1) have "delay_config dwmac \<noteq> None"
    unfolding delay_config_None_iff is_rgmii_iff by auto
  then obtain v where v: "delay_config dwmac = Some v" by auto
  show ?thesis
    using assms v unfolding meson8b_init_prg_eth_def rx_adj_enabled
    by (auto simp: exec_defs split: option.splits prod.splits sum.splits)
qed

lemma field_get_zero: "FIELD_GET msk 0 = 0"
  by (simp add: FIELD_GET_def)

lemma field_get_txdly_rx: "FIELD_GET PRG_ETH0_TXDLY_MASK (rx_dly_config dwmac) = 0"
  by (simp only: FIELD_GET_def rx_dly_outside_txdly drop_bit_of_0)

lemma delay_config_txdly_field:
  assumes "phy_mode dwmac \<in> {PHY_INTERFACE_MODE_RGMII, PHY_INTERFACE_MODE_RGMII_RXID,
             PHY_INTERFACE_MODE_RGMII_TXID, PHY_INTERFACE_MODE_RGMII_ID,
             PHY_INTERFACE_MODE_RMII}"
  shows "\<exists>v. delay_config dwmac = Some v \<and>
           FIELD_GET PRG_ETH0_TXDLY_MASK v =
             (if phy_mode dwmac \<in> {PHY_INTERFACE_MODE_RGMII, PHY_INTERFACE_MODE_RGMII_RXID}
              then FIELD_GET PRG_ETH0_TXDLY_MASK (tx_dly_config dwmac) else 0)"
  using assms
  by (auto simp: delay_config_def field_get_tx_or_rx field_get_txdly_rx field_get_zero)

section \<open>The claims\<close>

text \<open>
  C1. In the five supported interface modes \<^verbatim>\<open>meson8b_init_prg_eth\<close> either stops at the
  timing-adjustment clock without touching a register, or its first register access is
  one read-modify-write of \<^verbatim>\<open>PRG_ETH0\<close> under the mask of the tx-delay field (bits 6:5),
  adjust-enable (bit 13), adjust-setup (bit 14), adjust-delay (bits 19:15) and adjust-skew
  (bits 24:20). The value is \<open>tx_dly_config OR rx_dly_config\<close> for RGMII,
  \<open>tx_dly_config\<close> for RGMII_RXID, \<open>rx_dly_config\<close> for RGMII_TXID and zero for RGMII_ID
  and RMII; adjust-delay and adjust-skew are written as zero. The register accesses that
  follow are the update of the inverted-RMII-clock bit and then, at most, the one of the
  clock enable bit. In every other mode the function returns \<^verbatim>\<open>-EINVAL\<close> after the message
  about the unsupported mode, with no register access.
\<close>

theorem init_prg_eth_delay_write:
  assumes "meson8b_init_prg_eth k dwmac h = (r, h')"
  shows
    "(\<forall>i. bit delay_mask i \<longleftrightarrow> i \<in> {5, 6} \<union> {13, 14} \<union> {15..19} \<union> {20..24}) \<and>
     (if phy_mode dwmac \<in> {PHY_INTERFACE_MODE_RGMII, PHY_INTERFACE_MODE_RGMII_RXID,
          PHY_INTERFACE_MODE_RGMII_TXID, PHY_INTERFACE_MODE_RGMII_ID, PHY_INTERFACE_MODE_RMII}
     then
       if rx_delay_ns dwmac = 2 \<and>
          (timing_adj_clk dwmac = None \<or>
           clk_prepare_enable_ret k (timing_adj_clk dwmac) \<noteq> 0)
       then \<exists>evs. trace h' = trace h @ evs \<and> (\<forall>ev \<in> set evs. \<not> is_io ev)
       else
         \<exists>v old rest tl o3.
           v = (case phy_mode dwmac of
                  PHY_INTERFACE_MODE_RGMII \<Rightarrow> tx_dly_config dwmac OR rx_dly_config dwmac
                | PHY_INTERFACE_MODE_RGMII_RXID \<Rightarrow> tx_dly_config dwmac
                | PHY_INTERFACE_MODE_RGMII_TXID \<Rightarrow> rx_dly_config dwmac
                | _ \<Rightarrow> 0)
         \<and> trace h' = trace h @
              (if rx_delay_ns dwmac = 2
               then [Clk_prepare_enable (timing_adj_clk dwmac),
                     Devm_add_action_or_reset (rgmii_tx_clk dwmac)]
               else []) @
              Readl PRG_ETH0 old # Writel ((old AND NOT delay_mask) OR v) PRG_ETH0 # rest
         \<and> ((old AND NOT delay_mask) OR v) AND (PRG_ETH0_ADJ_DELAY OR PRG_ETH0_ADJ_SKEW) = 0
         \<and> filter is_io rest =
              Readl PRG_ETH0 ((old AND NOT delay_mask) OR v) #
              Writel (if phy_interface_mode_is_rgmii (phy_mode dwmac)
                      then ((old AND NOT delay_mask) OR v) AND NOT PRG_ETH0_INVERTED_RMII_CLK
                      else ((old AND NOT delay_mask) OR v) OR PRG_ETH0_INVERTED_RMII_CLK)
                PRG_ETH0 # tl
         \<and> (tl = [] \<or> tl = [Readl PRG_ETH0 o3,
                              Writel (o3 OR PRG_ETH0_TX_AND_PHY_REF_CLK) PRG_ETH0])
     else r = Inl (- EINVAL) \<and> regs h' = regs h \<and>
          trace h' = trace h @ [Dev_err ''unsupported phy-mode %s''])"
  (is "?bits \<and> ?run")
proof -
  have ?run
  proof (cases "delay_config dwmac")
  case None
  note None [unfolded delay_config_None_iff]
  with None assms show ?thesis
    by (simp add: meson8b_init_prg_eth_def dev_err_def log_def del: insert_iff) auto
next
  case (Some v)
  then have "delay_config dwmac \<noteq> None" by simp
  then have m: "phy_mode dwmac \<in> {PHY_INTERFACE_MODE_RGMII, PHY_INTERFACE_MODE_RGMII_RXID,
          PHY_INTERFACE_MODE_RGMII_TXID, PHY_INTERFACE_MODE_RGMII_ID, PHY_INTERFACE_MODE_RMII}"
    unfolding delay_config_None_iff by blast
  have h': "h' = snd (meson8b_init_prg_eth k dwmac h)" using assms by simp
  show ?thesis
  proof (cases "rx_delay_ns dwmac = 2 \<and>
          (timing_adj_clk dwmac = None \<or>
           clk_prepare_enable_ret k (timing_adj_clk dwmac) \<noteq> 0)")
    case True
    show ?thesis
      unfolding if_P [OF m] if_P [OF True] h'
      by (rule init_prg_eth_stops_at_timing_adj [OF Some True])
  next
    case False
    from init_prg_eth_reaches_write [OF Some False, of h]
    obtain old rest tl o3 where
      t: "trace h' = trace h @
           (if rx_delay_ns dwmac = 2
            then [Clk_prepare_enable (timing_adj_clk dwmac),
                  Devm_add_action_or_reset (rgmii_tx_clk dwmac)]
            else []) @
           Readl PRG_ETH0 old # Writel ((old AND NOT delay_mask) OR v) PRG_ETH0 # rest"
      and f: "filter is_io rest =
             Readl PRG_ETH0 ((old AND NOT delay_mask) OR v) #
             Writel (if phy_interface_mode_is_rgmii (phy_mode dwmac)
                     then ((old AND NOT delay_mask) OR v) AND NOT PRG_ETH0_INVERTED_RMII_CLK
                     else ((old AND NOT delay_mask) OR v) OR PRG_ETH0_INVERTED_RMII_CLK)
               PRG_ETH0 # tl"
      and tl: "tl = [] \<or> tl = [Readl PRG_ETH0 o3,
                              Writel (o3 OR PRG_ETH0_TX_AND_PHY_REF_CLK) PRG_ETH0]"
      unfolding h' by blast
    note z = written_subfields_zero [OF delay_config_Some(1,2) [OF Some], of old]
    show ?thesis
      unfolding if_P [OF m] if_not_P [OF False]
      apply (rule exI [of _ v], rule exI [of _ old], rule exI [of _ rest],
             rule exI [of _ tl], rule exI [of _ o3])
      apply (intro conjI delay_config_Some(3) [OF Some] t z f tl)
      done
  qed
  qed
  with bit_delay_mask show ?thesis by blast
qed

theorem init_prg_eth_delay_write_witness:
  "meson8b_init_prg_eth board (board_dwmac PHY_INTERFACE_MODE_RGMII 2 0) reset_hw =
     (Inr (), snd (meson8b_init_prg_eth board (board_dwmac PHY_INTERFACE_MODE_RGMII 2 0) reset_hw))
   \<and> (\<exists>old rest.
        trace (snd (meson8b_init_prg_eth board (board_dwmac PHY_INTERFACE_MODE_RGMII 2 0)
                 reset_hw)) =
          Readl PRG_ETH0 old #
          Writel ((old AND NOT delay_mask) OR
                  (tx_dly_config (board_dwmac PHY_INTERFACE_MODE_RGMII 2 0) OR
                   rx_dly_config (board_dwmac PHY_INTERFACE_MODE_RGMII 2 0))) PRG_ETH0 # rest)"
proof -
  have run: "meson8b_init_prg_eth board (board_dwmac PHY_INTERFACE_MODE_RGMII 2 0) reset_hw =
     (Inr (), snd (meson8b_init_prg_eth board (board_dwmac PHY_INTERFACE_MODE_RGMII 2 0) reset_hw))"
    by (simp add: run_defs board_defs)
  from init_prg_eth_delay_write [OF run] run show ?thesis
    by (simp add: board_defs) blast
qed

text \<open>
  C2. For every prior register value, mask and value, one call of
  \<^verbatim>\<open>meson8b_dwmac_mask_bits\<close> leaves the register equal to
  \<open>(old AND NOT mask) OR (value AND mask)\<close> and every other register as it was; bit by
  bit, a bit inside the mask takes the bit of the value and a bit outside the mask keeps
  its old value. The call reads the register once and writes it once.
\<close>

theorem mask_bits_read_modify_write:
  "regs (meson8b_dwmac_mask_bits reg msk val h) =
     (regs h)(reg := (regs h reg AND NOT msk) OR (val AND msk))
   \<and> bit (regs (meson8b_dwmac_mask_bits reg msk val h) reg) i =
       (if bit msk i then bit val i else bit (regs h reg) i)
   \<and> regs (meson8b_dwmac_mask_bits reg msk val h) reg AND NOT msk = regs h reg AND NOT msk
   \<and> trace (meson8b_dwmac_mask_bits reg msk val h) =
       trace h @ [Readl reg (regs h reg),
                  Writel ((regs h reg AND NOT msk) OR (val AND msk)) reg]"
proof -
  have "(regs h reg AND NOT msk OR val AND msk) AND NOT msk = regs h reg AND NOT msk"
    by (rule bit_word_eqI) (auto simp: bit_and_iff bit_or_iff bit_not_iff)
  then show ?thesis
    by (simp add: mask_bits_eq bit_and_iff bit_or_iff bit_not_iff) (auto dest: bit_imp_le_length)
qed

text \<open>
  C3. With \<open>rx_delay_ns = 2\<close> (so that \<open>rx_dly_config\<close> has the adjust-enable flag) and no
  timing-adjustment clock, \<^verbatim>\<open>meson8b_init_prg_eth\<close> returns \<^verbatim>\<open>-EINVAL\<close>, the register
  block is as it was and nothing but the error message is logged: no register is read or
  written. In the five supported modes the message is the one about the mandatory
  timing-adjustment clock.
\<close>

theorem init_prg_eth_missing_timing_adj_clk:
  assumes "rx_delay_ns dwmac = 2" and "timing_adj_clk dwmac = None"
  shows "rx_dly_config dwmac AND PRG_ETH0_ADJ_ENABLE \<noteq> 0 \<and>
         meson8b_init_prg_eth k dwmac h =
           (Inl (- EINVAL),
            h\<lparr>trace := trace h @
               [Dev_err (if phy_mode dwmac \<in> {PHY_INTERFACE_MODE_RGMII,
                              PHY_INTERFACE_MODE_RGMII_RXID, PHY_INTERFACE_MODE_RGMII_TXID,
                              PHY_INTERFACE_MODE_RGMII_ID, PHY_INTERFACE_MODE_RMII}
                         then ''The timing-adjustment clock is mandatory for the RX delay re-timing''
                         else ''unsupported phy-mode %s'')]\<rparr>) \<and>
         regs (snd (meson8b_init_prg_eth k dwmac h)) = regs h"
proof -
  have run: "meson8b_init_prg_eth k dwmac h =
           (Inl (- EINVAL),
            h\<lparr>trace := trace h @
               [Dev_err (if phy_mode dwmac \<in> {PHY_INTERFACE_MODE_RGMII,
                              PHY_INTERFACE_MODE_RGMII_RXID, PHY_INTERFACE_MODE_RGMII_TXID,
                              PHY_INTERFACE_MODE_RGMII_ID, PHY_INTERFACE_MODE_RMII}
                         then ''The timing-adjustment clock is mandatory for the RX delay re-timing''
                         else ''unsupported phy-mode %s'')]\<rparr>)"
  proof (cases "delay_config dwmac")
    case None
    then show ?thesis
      using None [unfolded delay_config_None_iff]
      by (simp add: meson8b_init_prg_eth_def dev_err_def log_def)
  next
    case (Some dc)
    then have "delay_config dwmac \<noteq> None" by simp
    then have "phy_mode dwmac \<in> {PHY_INTERFACE_MODE_RGMII,
                              PHY_INTERFACE_MODE_RGMII_RXID, PHY_INTERFACE_MODE_RGMII_TXID,
                              PHY_INTERFACE_MODE_RGMII_ID, PHY_INTERFACE_MODE_RMII}"
      unfolding delay_config_None_iff by blast
    with Some assms show ?thesis
      by (simp add: meson8b_init_prg_eth_def rx_adj_enabled dev_err_def log_def)
  qed
  moreover have "rx_dly_config dwmac AND PRG_ETH0_ADJ_ENABLE \<noteq> 0"
    using assms(1) by (simp only: rx_adj_enabled)
  ultimately show ?thesis by simp
qed

theorem init_prg_eth_missing_timing_adj_clk_witness:
  "rx_delay_ns (board_dwmac PHY_INTERFACE_MODE_RGMII 2 2) = 2 \<and>
   timing_adj_clk (board_dwmac PHY_INTERFACE_MODE_RGMII 2 2) = None \<and>
   meson8b_init_prg_eth board (board_dwmac PHY_INTERFACE_MODE_RGMII 2 2) reset_hw =
     (Inl (- EINVAL),
      reset_hw\<lparr>trace :=
        [Dev_err ''The timing-adjustment clock is mandatory for the RX delay re-timing'']\<rparr>)"
proof -
  have a: "rx_delay_ns (board_dwmac PHY_INTERFACE_MODE_RGMII 2 2) = 2"
    and b: "timing_adj_clk (board_dwmac PHY_INTERFACE_MODE_RGMII 2 2) = None"
    by (simp_all add: board_dwmac_def)
  from init_prg_eth_missing_timing_adj_clk [OF a b, of board reset_hw] a b show ?thesis
    by (simp add: board_dwmac_def reset_hw_def)
qed

text \<open>
  C4. The claim lets initialization succeed without the timing-adjustment clock whenever
  the mode does not use the receive delay. The code asks for the clock on
  \<open>rx_dly_config\<close>, not on the value that the mode selects: in mode RGMII_RXID with
  \<open>rx_delay_ns = 2\<close> and no timing-adjustment clock the value to write is the transmit
  field alone, without adjust-enable, and yet \<^verbatim>\<open>meson8b_init_prg_eth\<close> returns \<^verbatim>\<open>-EINVAL\<close>
  with the message that the clock is mandatory for the RX delay re-timing, and so does
  \<^verbatim>\<open>meson8b_dwmac_probe\<close>.
\<close>

theorem init_prg_eth_rxid_wants_timing_adj_clk:
  "delay_config (board_dwmac PHY_INTERFACE_MODE_RGMII_RXID 2 2) = Some 0x20 \<and>
   (0x20 :: u32) AND PRG_ETH0_ADJ_ENABLE = 0 \<and>
   meson8b_init_prg_eth board (board_dwmac PHY_INTERFACE_MODE_RGMII_RXID 2 2) reset_hw =
     (Inl (- EINVAL),
      reset_hw\<lparr>trace :=
        [Dev_err ''The timing-adjustment clock is mandatory for the RX delay re-timing'']\<rparr>) \<and>
   fst (meson8b_dwmac_probe
          (board\<lparr>of_get_phy_mode := Some PHY_INTERFACE_MODE_RGMII_RXID,
                 of_rx_delay_ns := Some 2\<rparr>) reset_hw) = Inl (- EINVAL)"
  by (simp add: run_defs board_defs val_defs ADJ_ENABLE_val)

text \<open>
  C5. For a transmit delay of 0, 2, 4 or 6 ns the encoding \<open>tx_dly_config\<close> is \<open>ns / 2\<close>
  shifted to bit 5; it lies inside the two bits 6:5 of \<^verbatim>\<open>PRG_ETH0_TXDLY_MASK\<close>; the field
  holds \<open>ns / 2\<close>; and decoding gives \<open>ns\<close> back, from the encoding itself and from the
  register after the encoding is written under the delay mask.
\<close>

theorem tx_delay_roundtrip:
  assumes "tx_delay_ns dwmac \<in> {0, 2, 4, 6}"
  shows "tx_dly_config dwmac = push_bit 5 (tx_delay_ns dwmac div 2)
       \<and> (\<forall>i. bit PRG_ETH0_TXDLY_MASK i \<longleftrightarrow> i \<in> {5, 6})
       \<and> tx_dly_config dwmac AND NOT PRG_ETH0_TXDLY_MASK = 0
       \<and> FIELD_GET PRG_ETH0_TXDLY_MASK (tx_dly_config dwmac) = tx_delay_ns dwmac div 2
       \<and> decode_tx_delay (tx_dly_config dwmac) = tx_delay_ns dwmac
       \<and> decode_tx_delay
           (regs (meson8b_dwmac_mask_bits PRG_ETH0 delay_mask (tx_dly_config dwmac) h)
              PRG_ETH0) = tx_delay_ns dwmac"
proof -
  have f: "FIELD_GET PRG_ETH0_TXDLY_MASK (tx_dly_config dwmac) =
           take_bit 2 (drop_bit 1 (tx_delay_ns dwmac))"
    unfolding tx_dly_config_val TXDLY_MASK_val by (rule field_get_txdly)
  have g: "regs (meson8b_dwmac_mask_bits PRG_ETH0 delay_mask (tx_dly_config dwmac) h) PRG_ETH0 =
        (regs h PRG_ETH0 AND NOT delay_mask) OR (tx_dly_config dwmac AND delay_mask)"
    by (simp add: mask_bits_eq)
  from assms consider "tx_delay_ns dwmac = 0" | "tx_delay_ns dwmac = 2"
    | "tx_delay_ns dwmac = 4" | "tx_delay_ns dwmac = 6" by auto
  then have "tx_dly_config dwmac = push_bit 5 (tx_delay_ns dwmac div 2)
       \<and> FIELD_GET PRG_ETH0_TXDLY_MASK (tx_dly_config dwmac) = tx_delay_ns dwmac div 2
       \<and> decode_tx_delay (tx_dly_config dwmac) = tx_delay_ns dwmac
       \<and> decode_tx_delay
           (regs (meson8b_dwmac_mask_bits PRG_ETH0 delay_mask (tx_dly_config dwmac) h)
              PRG_ETH0) = tx_delay_ns dwmac"
  proof cases
    case 1 then show ?thesis unfolding decode_tx_delay_def g field_get_txdly_written f
      by (simp add: tx_dly_config_val)
  next
    case 2 then show ?thesis unfolding decode_tx_delay_def g field_get_txdly_written f
      by (simp add: tx_dly_config_val)
  next
    case 3 then show ?thesis unfolding decode_tx_delay_def g field_get_txdly_written f
      by (simp add: tx_dly_config_val)
  next
    case 4 then show ?thesis unfolding decode_tx_delay_def g field_get_txdly_written f
      by (simp add: tx_dly_config_val)
  qed
  with bit_TXDLY_MASK tx_dly_config_in_field [of dwmac] show ?thesis by blast
qed

theorem tx_delay_roundtrip_witness:
  "tx_delay_ns (board_dwmac PHY_INTERFACE_MODE_RGMII 4 0) \<in> {0, 2, 4, 6} \<and>
   tx_dly_config (board_dwmac PHY_INTERFACE_MODE_RGMII 4 0) = 0x40 \<and>
   decode_tx_delay (tx_dly_config (board_dwmac PHY_INTERFACE_MODE_RGMII 4 0)) = 4"
proof -
  have a: "tx_delay_ns (board_dwmac PHY_INTERFACE_MODE_RGMII 4 0) \<in> {0, 2, 4, 6}"
    by (simp add: board_dwmac_def)
  from tx_delay_roundtrip [OF a, of reset_hw]
  have "tx_dly_config (board_dwmac PHY_INTERFACE_MODE_RGMII 4 0) =
          push_bit 5 (tx_delay_ns (board_dwmac PHY_INTERFACE_MODE_RGMII 4 0) div 2)"
    and "decode_tx_delay (tx_dly_config (board_dwmac PHY_INTERFACE_MODE_RGMII 4 0)) =
          tx_delay_ns (board_dwmac PHY_INTERFACE_MODE_RGMII 4 0)"
    by blast+
  moreover have "tx_delay_ns (board_dwmac PHY_INTERFACE_MODE_RGMII 4 0) = 4"
    by (simp add: board_dwmac_def)
  ultimately show ?thesis using a by simp
qed

text \<open>
  C7. When the receive delay property is present and neither 0 nor 2,
  \<^verbatim>\<open>meson8b_dwmac_probe\<close> fails, the register block is as it was, and the log has no
  register access and no clock framework call: the failure comes before the clock graph
  is built and before any register is written. When the earlier probe steps succeed, the
  failure is \<^verbatim>\<open>-EINVAL\<close> with the message about the allowed RX delays. With a receive
  delay of 0 or 2 (or no property, which means 0) the check passes: after the earlier
  steps the probe goes on to fetch the timing-adjustment clock.
\<close>

theorem probe_rx_delay_check:
  assumes "meson8b_dwmac_probe k h = (r, h')"
  shows
    "if of_rx_delay_ns k \<in> {None, Some 0, Some 2}
     then probe_reaches_delays k \<longrightarrow>
          (\<exists>rest. trace h' = trace h @ Devm_clk_get_optional ''timing-adjustment'' # rest)
     else (\<exists>e. r = Inl e) \<and> regs h' = regs h \<and>
          (\<exists>es. trace h' = trace h @ es \<and> (\<forall>ev \<in> set es. \<not> is_io ev \<and> \<not> is_clk ev)) \<and>
          (probe_reaches_delays k \<longrightarrow>
             r = Inl (- EINVAL) \<and>
             trace h' = trace h @
               [Dev_err ''The only allowed RX delays values are: 0ns, 2ns'',
                Stmmac_remove_config_dt])"
proof (cases "of_rx_delay_ns k \<in> {None, Some 0, Some 2}")
  case True
  have "\<exists>rest. trace h' = trace h @ Devm_clk_get_optional ''timing-adjustment'' # rest"
    if p: "probe_reaches_delays k"
  proof -
    from p obtain d m where dm: "of_device_get_match_data k = Some d" "of_get_phy_mode k = Some m"
      by (auto simp: probe_reaches_delays_def)
    from p have q: "devm_kzalloc_dwmac k" "devm_platform_ioremap_resource k = Inr ()"
      "stmmac_get_platform_resources k = 0" "stmmac_probe_config_dt k = Inr ()"
      by (auto simp: probe_reaches_delays_def)
    from probe_after_rx_check [OF q(1) dm(1) q(2) dm(2) True, of h]
    obtain rest where
      t: "trace (snd (probe_dwmac k h)) =
            trace h @ Devm_clk_get_optional ''timing-adjustment'' # rest"
      by blast
    from assms q t show ?thesis
      by (auto simp: meson8b_dwmac_probe_def log_def split: prod.splits sum.splits)
  qed
  then show ?thesis unfolding if_P [OF True] by blast
next
  case False
  from probe_rx_rejected_early [OF False, of h] obtain e es where
    pe: "probe_dwmac k h = (Inl e, h\<lparr>trace := trace h @ es\<rparr>)"
    and es: "\<forall>ev \<in> set es. \<not> is_io ev \<and> \<not> is_clk ev" by blast
  have a: "\<exists>e. r = Inl e" "regs h' = regs h"
    using assms pe by (auto simp: meson8b_dwmac_probe_def log_def split: sum.splits if_splits)
  have b: "\<exists>es. trace h' = trace h @ es \<and> (\<forall>ev \<in> set es. \<not> is_io ev \<and> \<not> is_clk ev)"
  proof -
    have "trace h' = trace h @ [] \<or> trace h' = trace h @ (es @ [Stmmac_remove_config_dt])"
      using assms pe by (auto simp: meson8b_dwmac_probe_def log_def split: sum.splits if_splits)
    then show ?thesis
    proof
      assume "trace h' = trace h @ []"
      then show ?thesis by (intro exI [of _ "[]"]) simp
    next
      assume "trace h' = trace h @ (es @ [Stmmac_remove_config_dt])"
      with es show ?thesis by (intro exI [of _ "es @ [Stmmac_remove_config_dt]"]) auto
    qed
  qed
  have c: "r = Inl (- EINVAL) \<and>
             trace h' = trace h @
               [Dev_err ''The only allowed RX delays values are: 0ns, 2ns'',
                Stmmac_remove_config_dt]"
    if p: "probe_reaches_delays k"
  proof -
    from p obtain d m where dm: "of_device_get_match_data k = Some d" "of_get_phy_mode k = Some m"
      by (auto simp: probe_reaches_delays_def)
    from p have q: "devm_kzalloc_dwmac k" "devm_platform_ioremap_resource k = Inr ()"
      "stmmac_get_platform_resources k = 0" "stmmac_probe_config_dt k = Inr ()"
      by (auto simp: probe_reaches_delays_def)
    from probe_rx_rejected [OF q(1) dm(1) q(2) dm(2) False, of h] assms q show ?thesis
      by (auto simp: meson8b_dwmac_probe_def log_def dev_err_def)
  qed
  from a b c show ?thesis unfolding if_not_P [OF False] by blast
qed

theorem probe_rx_delay_check_witness:
  "of_rx_delay_ns (board\<lparr>of_rx_delay_ns := Some 3\<rparr>) \<notin> {None, Some 0, Some 2} \<and>
   probe_reaches_delays (board\<lparr>of_rx_delay_ns := Some 3\<rparr>) \<and>
   meson8b_dwmac_probe (board\<lparr>of_rx_delay_ns := Some 3\<rparr>) reset_hw =
     (Inl (- EINVAL),
      reset_hw\<lparr>trace := [Dev_err ''The only allowed RX delays values are: 0ns, 2ns'',
                          Stmmac_remove_config_dt]\<rparr>) \<and>
   of_rx_delay_ns board \<in> {None, Some 0, Some 2} \<and>
   probe_reaches_delays board \<and>
   (\<exists>rest. trace (snd (meson8b_dwmac_probe board reset_hw)) =
      Devm_clk_get_optional ''timing-adjustment'' # rest)"
proof -
  have bad: "meson8b_dwmac_probe (board\<lparr>of_rx_delay_ns := Some 3\<rparr>) reset_hw =
     (Inl (- EINVAL),
      reset_hw\<lparr>trace := [Dev_err ''The only allowed RX delays values are: 0ns, 2ns'',
                          Stmmac_remove_config_dt]\<rparr>)"
    by (simp add: run_defs board_defs)
  have good: "meson8b_dwmac_probe board reset_hw =
     (fst (meson8b_dwmac_probe board reset_hw), snd (meson8b_dwmac_probe board reset_hw))"
    by simp
  have p: "probe_reaches_delays (board\<lparr>of_rx_delay_ns := Some 3\<rparr>)" "probe_reaches_delays board"
    by (simp_all add: probe_reaches_delays_def board_def)
  have rx: "of_rx_delay_ns (board\<lparr>of_rx_delay_ns := Some 3\<rparr>) \<notin> {None, Some 0, Some 2}"
    "of_rx_delay_ns board \<in> {None, Some 0, Some 2}"
    by (simp_all add: board_def)
  from probe_rx_delay_check [OF good] p(2) rx(2)
  have "\<exists>rest. trace (snd (meson8b_dwmac_probe board reset_hw)) =
      Devm_clk_get_optional ''timing-adjustment'' # rest"
    by (simp add: reset_hw_def)
  with probe_rx_delay_check [OF bad] bad p rx show ?thesis by blast
qed

text \<open>
  C8. \<^verbatim>\<open>meson8b_init_prg_eth\<close> succeeds exactly when the mode is one of the five, the
  timing-adjustment clock (needed if \<open>rx_delay_ns = 2\<close>) is there and can be enabled, and,
  in an RGMII-family mode, \<^verbatim>\<open>clk_set_rate\<close> and \<^verbatim>\<open>clk_prepare_enable\<close> of the TX clock
  return 0. In an RGMII-family mode, once the delay is written, bit 11 (inverted RMII
  clock) is written as 0 and \<^verbatim>\<open>clk_set_rate(rgmii_tx_clk, 125000000)\<close> is called, and
  unless that fails \<^verbatim>\<open>clk_prepare_enable(rgmii_tx_clk)\<close> follows. On every successful run
  the log is: the delay write; the update of bit 11, to 0 in an RGMII-family mode and to
  1 in RMII mode; the two TX clock calls in an RGMII-family mode and no clock call in
  RMII mode; and last the write that sets bit 12 (TX and PHY reference clock), which is
  set in the final register.
\<close>

theorem init_prg_eth_clock_steps:
  "(fst (meson8b_init_prg_eth k dwmac h) = Inr () \<longleftrightarrow>
      phy_mode dwmac \<in> {PHY_INTERFACE_MODE_RGMII, PHY_INTERFACE_MODE_RGMII_RXID,
        PHY_INTERFACE_MODE_RGMII_TXID, PHY_INTERFACE_MODE_RGMII_ID, PHY_INTERFACE_MODE_RMII} \<and>
      \<not> (rx_delay_ns dwmac = 2 \<and>
         (timing_adj_clk dwmac = None \<or>
          clk_prepare_enable_ret k (timing_adj_clk dwmac) \<noteq> 0)) \<and>
      (phy_interface_mode_is_rgmii (phy_mode dwmac) \<longrightarrow>
         clk_set_rate_ret k (rgmii_tx_clk dwmac) 125000000 = 0 \<and>
         clk_prepare_enable_ret k (rgmii_tx_clk dwmac) = 0))
   \<and> (phy_interface_mode_is_rgmii (phy_mode dwmac) \<and>
      \<not> (rx_delay_ns dwmac = 2 \<and>
         (timing_adj_clk dwmac = None \<or>
          clk_prepare_enable_ret k (timing_adj_clk dwmac) \<noteq> 0)) \<longrightarrow>
      (\<exists>old d rest.
         trace (snd (meson8b_init_prg_eth k dwmac h)) = trace h @
           (if rx_delay_ns dwmac = 2
            then [Clk_prepare_enable (timing_adj_clk dwmac),
                  Devm_add_action_or_reset (rgmii_tx_clk dwmac)]
            else []) @
           [Readl PRG_ETH0 old, Writel d PRG_ETH0, Readl PRG_ETH0 d,
            Writel (d AND NOT PRG_ETH0_INVERTED_RMII_CLK) PRG_ETH0,
            Clk_set_rate (rgmii_tx_clk dwmac) 125000000] @
           (if clk_set_rate_ret k (rgmii_tx_clk dwmac) 125000000 \<noteq> 0
            then [Dev_err ''failed to set RGMII TX clock'']
            else Clk_prepare_enable (rgmii_tx_clk dwmac) # rest)))
   \<and> (fst (meson8b_init_prg_eth k dwmac h) = Inr () \<longrightarrow>
      (\<exists>old d d2 o3.
         trace (snd (meson8b_init_prg_eth k dwmac h)) = trace h @
           (if rx_delay_ns dwmac = 2
            then [Clk_prepare_enable (timing_adj_clk dwmac),
                  Devm_add_action_or_reset (rgmii_tx_clk dwmac)]
            else []) @
           [Readl PRG_ETH0 old, Writel d PRG_ETH0, Readl PRG_ETH0 d, Writel d2 PRG_ETH0] @
           (if phy_interface_mode_is_rgmii (phy_mode dwmac) then
              [Clk_set_rate (rgmii_tx_clk dwmac) 125000000,
               Clk_prepare_enable (rgmii_tx_clk dwmac),
               Devm_add_action_or_reset (rgmii_tx_clk dwmac)]
            else []) @
           [Readl PRG_ETH0 o3, Writel (o3 OR PRG_ETH0_TX_AND_PHY_REF_CLK) PRG_ETH0]
         \<and> (if phy_interface_mode_is_rgmii (phy_mode dwmac) then
              d2 = d AND NOT PRG_ETH0_INVERTED_RMII_CLK \<and> \<not> bit d2 11 \<and>
              clk_set_rate_ret k (rgmii_tx_clk dwmac) 125000000 = 0 \<and>
              clk_prepare_enable_ret k (rgmii_tx_clk dwmac) = 0
            else
              phy_mode dwmac = PHY_INTERFACE_MODE_RMII \<and>
              d2 = d OR PRG_ETH0_INVERTED_RMII_CLK \<and> bit d2 11 \<and> o3 = d2 \<and>
              bit (regs (snd (meson8b_init_prg_eth k dwmac h)) PRG_ETH0) 11)
         \<and> regs (snd (meson8b_init_prg_eth k dwmac h)) PRG_ETH0 =
             o3 OR PRG_ETH0_TX_AND_PHY_REF_CLK
         \<and> bit (regs (snd (meson8b_init_prg_eth k dwmac h)) PRG_ETH0) 12))"
proof (intro conjI impI)
  show "fst (meson8b_init_prg_eth k dwmac h) = Inr () \<longleftrightarrow>
      phy_mode dwmac \<in> {PHY_INTERFACE_MODE_RGMII, PHY_INTERFACE_MODE_RGMII_RXID,
        PHY_INTERFACE_MODE_RGMII_TXID, PHY_INTERFACE_MODE_RGMII_ID, PHY_INTERFACE_MODE_RMII} \<and>
      \<not> (rx_delay_ns dwmac = 2 \<and>
         (timing_adj_clk dwmac = None \<or>
          clk_prepare_enable_ret k (timing_adj_clk dwmac) \<noteq> 0)) \<and>
      (phy_interface_mode_is_rgmii (phy_mode dwmac) \<longrightarrow>
         clk_set_rate_ret k (rgmii_tx_clk dwmac) 125000000 = 0 \<and>
         clk_prepare_enable_ret k (rgmii_tx_clk dwmac) = 0)"
    by (rule init_prg_eth_succeeds_iff)
next
  assume a: "phy_interface_mode_is_rgmii (phy_mode dwmac) \<and>
      \<not> (rx_delay_ns dwmac = 2 \<and>
         (timing_adj_clk dwmac = None \<or>
          clk_prepare_enable_ret k (timing_adj_clk dwmac) \<noteq> 0))"
  show "\<exists>old d rest.
         trace (snd (meson8b_init_prg_eth k dwmac h)) = trace h @
           (if rx_delay_ns dwmac = 2
            then [Clk_prepare_enable (timing_adj_clk dwmac),
                  Devm_add_action_or_reset (rgmii_tx_clk dwmac)]
            else []) @
           [Readl PRG_ETH0 old, Writel d PRG_ETH0, Readl PRG_ETH0 d,
            Writel (d AND NOT PRG_ETH0_INVERTED_RMII_CLK) PRG_ETH0,
            Clk_set_rate (rgmii_tx_clk dwmac) 125000000] @
           (if clk_set_rate_ret k (rgmii_tx_clk dwmac) 125000000 \<noteq> 0
            then [Dev_err ''failed to set RGMII TX clock'']
            else Clk_prepare_enable (rgmii_tx_clk dwmac) # rest)"
    by (rule init_prg_eth_rgmii_sets_rate [OF a [THEN conjunct1] a [THEN conjunct2]])
next
  assume "fst (meson8b_init_prg_eth k dwmac h) = Inr ()"
  then have "meson8b_init_prg_eth k dwmac h = (Inr (), snd (meson8b_init_prg_eth k dwmac h))"
    by (metis prod.collapse)
  then show "\<exists>old d d2 o3.
         trace (snd (meson8b_init_prg_eth k dwmac h)) = trace h @
           (if rx_delay_ns dwmac = 2
            then [Clk_prepare_enable (timing_adj_clk dwmac),
                  Devm_add_action_or_reset (rgmii_tx_clk dwmac)]
            else []) @
           [Readl PRG_ETH0 old, Writel d PRG_ETH0, Readl PRG_ETH0 d, Writel d2 PRG_ETH0] @
           (if phy_interface_mode_is_rgmii (phy_mode dwmac) then
              [Clk_set_rate (rgmii_tx_clk dwmac) 125000000,
               Clk_prepare_enable (rgmii_tx_clk dwmac),
               Devm_add_action_or_reset (rgmii_tx_clk dwmac)]
            else []) @
           [Readl PRG_ETH0 o3, Writel (o3 OR PRG_ETH0_TX_AND_PHY_REF_CLK) PRG_ETH0]
         \<and> (if phy_interface_mode_is_rgmii (phy_mode dwmac) then
              d2 = d AND NOT PRG_ETH0_INVERTED_RMII_CLK \<and> \<not> bit d2 11 \<and>
              clk_set_rate_ret k (rgmii_tx_clk dwmac) 125000000 = 0 \<and>
              clk_prepare_enable_ret k (rgmii_tx_clk dwmac) = 0
            else
              phy_mode dwmac = PHY_INTERFACE_MODE_RMII \<and>
              d2 = d OR PRG_ETH0_INVERTED_RMII_CLK \<and> bit d2 11 \<and> o3 = d2 \<and>
              bit (regs (snd (meson8b_init_prg_eth k dwmac h)) PRG_ETH0) 11)
         \<and> regs (snd (meson8b_init_prg_eth k dwmac h)) PRG_ETH0 =
             o3 OR PRG_ETH0_TX_AND_PHY_REF_CLK
         \<and> bit (regs (snd (meson8b_init_prg_eth k dwmac h)) PRG_ETH0) 12"
    by (rule init_prg_eth_success_log)
qed

text \<open>
  An RGMII run on the board, where both TX clock calls return 0: it succeeds, and its
  log shows the rate request of 125 MHz and the enabling of the TX clock between the
  write of bit 11 and the final write of bit 12.
\<close>

theorem init_prg_eth_clock_steps_witness:
  "(phy_mode (board_dwmac PHY_INTERFACE_MODE_RGMII 2 0)
      \<in> {PHY_INTERFACE_MODE_RGMII, PHY_INTERFACE_MODE_RGMII_RXID,
         PHY_INTERFACE_MODE_RGMII_TXID, PHY_INTERFACE_MODE_RGMII_ID, PHY_INTERFACE_MODE_RMII} \<and>
    \<not> (rx_delay_ns (board_dwmac PHY_INTERFACE_MODE_RGMII 2 0) = 2 \<and>
       (timing_adj_clk (board_dwmac PHY_INTERFACE_MODE_RGMII 2 0) = None \<or>
        clk_prepare_enable_ret board (timing_adj_clk (board_dwmac PHY_INTERFACE_MODE_RGMII 2 0))
          \<noteq> 0)) \<and>
    phy_interface_mode_is_rgmii (phy_mode (board_dwmac PHY_INTERFACE_MODE_RGMII 2 0)) \<and>
    clk_set_rate_ret board (rgmii_tx_clk (board_dwmac PHY_INTERFACE_MODE_RGMII 2 0))
      125000000 = 0 \<and>
    clk_prepare_enable_ret board (rgmii_tx_clk (board_dwmac PHY_INTERFACE_MODE_RGMII 2 0))
      = 0) \<and>
   fst (meson8b_init_prg_eth board (board_dwmac PHY_INTERFACE_MODE_RGMII 2 0) reset_hw) = Inr () \<and>
   (\<exists>old d o3.
      trace (snd (meson8b_init_prg_eth board (board_dwmac PHY_INTERFACE_MODE_RGMII 2 0)
                    reset_hw)) =
        [Readl PRG_ETH0 old, Writel d PRG_ETH0, Readl PRG_ETH0 d,
         Writel (d AND NOT PRG_ETH0_INVERTED_RMII_CLK) PRG_ETH0,
         Clk_set_rate (Some (Clk 1)) 125000000,
         Clk_prepare_enable (Some (Clk 1)),
         Devm_add_action_or_reset (Some (Clk 1)),
         Readl PRG_ETH0 o3, Writel (o3 OR PRG_ETH0_TX_AND_PHY_REF_CLK) PRG_ETH0]) \<and>
   bit (regs (snd (meson8b_init_prg_eth board (board_dwmac PHY_INTERFACE_MODE_RGMII 2 0)
                 reset_hw)) PRG_ETH0) 12"
proof -
  let ?dw = "board_dwmac PHY_INTERFACE_MODE_RGMII 2 0"
  note t = init_prg_eth_clock_steps [where k = board and dwmac = "?dw" and h = reset_hw]
  have c: "phy_mode ?dw
      \<in> {PHY_INTERFACE_MODE_RGMII, PHY_INTERFACE_MODE_RGMII_RXID,
         PHY_INTERFACE_MODE_RGMII_TXID, PHY_INTERFACE_MODE_RGMII_ID, PHY_INTERFACE_MODE_RMII} \<and>
    \<not> (rx_delay_ns ?dw = 2 \<and>
       (timing_adj_clk ?dw = None \<or>
        clk_prepare_enable_ret board (timing_adj_clk ?dw) \<noteq> 0)) \<and>
    (phy_interface_mode_is_rgmii (phy_mode ?dw) \<longrightarrow>
       clk_set_rate_ret board (rgmii_tx_clk ?dw) 125000000 = 0 \<and>
       clk_prepare_enable_ret board (rgmii_tx_clk ?dw) = 0)"
    by (simp add: board_dwmac_def board_def)
  have m: "phy_interface_mode_is_rgmii (phy_mode ?dw)" and rx: "rx_delay_ns ?dw \<noteq> 2"
    and tx: "rgmii_tx_clk ?dw = Some (Clk 1)"
    by (simp_all add: board_dwmac_def)
  have c': "phy_mode ?dw
      \<in> {PHY_INTERFACE_MODE_RGMII, PHY_INTERFACE_MODE_RGMII_RXID,
         PHY_INTERFACE_MODE_RGMII_TXID, PHY_INTERFACE_MODE_RGMII_ID, PHY_INTERFACE_MODE_RMII} \<and>
    \<not> (rx_delay_ns ?dw = 2 \<and>
       (timing_adj_clk ?dw = None \<or>
        clk_prepare_enable_ret board (timing_adj_clk ?dw) \<noteq> 0)) \<and>
    phy_interface_mode_is_rgmii (phy_mode ?dw) \<and>
    clk_set_rate_ret board (rgmii_tx_clk ?dw) 125000000 = 0 \<and>
    clk_prepare_enable_ret board (rgmii_tx_clk ?dw) = 0"
    by (simp add: board_dwmac_def board_def)
  from t [THEN conjunct1, THEN iffD2, OF c]
  have ok: "fst (meson8b_init_prg_eth board ?dw reset_hw) = Inr ()" .
  note s = t [THEN conjunct2, THEN conjunct2, THEN mp, OF ok,
      unfolded if_P [OF m] if_not_P [OF rx] tx]
  from s have tr: "\<exists>old d o3.
      trace (snd (meson8b_init_prg_eth board ?dw reset_hw)) =
        [Readl PRG_ETH0 old, Writel d PRG_ETH0, Readl PRG_ETH0 d,
         Writel (d AND NOT PRG_ETH0_INVERTED_RMII_CLK) PRG_ETH0,
         Clk_set_rate (Some (Clk 1)) 125000000,
         Clk_prepare_enable (Some (Clk 1)),
         Devm_add_action_or_reset (Some (Clk 1)),
         Readl PRG_ETH0 o3, Writel (o3 OR PRG_ETH0_TX_AND_PHY_REF_CLK) PRG_ETH0]"
    by (elim exE conjE) (simp add: reset_hw_def)
  from s have b: "bit (regs (snd (meson8b_init_prg_eth board ?dw reset_hw)) PRG_ETH0) 12"
    by (elim exE conjE)
  show ?thesis
    by (rule conjI [OF c' conjI [OF ok conjI [OF tr b]]])
qed

text \<open>
  C9. The legacy policy \<^verbatim>\<open>meson8b_set_phy_mode\<close> writes the one-bit field at bit 0 as 1 in
  the four RGMII modes and as 0 in RMII mode; the extended policy
  \<^verbatim>\<open>meson_axg_set_phy_mode\<close> writes the field at bits 2:0 as 1 in the four RGMII modes
  and as 4 in RMII mode. In any other mode both return \<^verbatim>\<open>-EINVAL\<close> and only log the
  message. Neither changes a bit outside its field, nor another register.
\<close>

theorem set_phy_mode_policies:
  assumes "meson8b_set_phy_mode dwmac h = (r, h')"
      and "meson_axg_set_phy_mode dwmac h = (rx, hx)"
  shows
    "(\<forall>i. bit PRG_ETH0_RGMII_MODE i \<longleftrightarrow> i = 0) \<and>
     (\<forall>i. bit PRG_ETH0_EXT_PHY_MODE_MASK i \<longleftrightarrow> i \<in> {0, 1, 2}) \<and>
     (if phy_interface_mode_is_rgmii (phy_mode dwmac) then
        (r = Inr () \<and> FIELD_GET PRG_ETH0_RGMII_MODE (regs h' PRG_ETH0) = 1) \<and>
        (rx = Inr () \<and> FIELD_GET PRG_ETH0_EXT_PHY_MODE_MASK (regs hx PRG_ETH0) = 1)
      else if phy_mode dwmac = PHY_INTERFACE_MODE_RMII then
        (r = Inr () \<and> FIELD_GET PRG_ETH0_RGMII_MODE (regs h' PRG_ETH0) = 0) \<and>
        (rx = Inr () \<and> FIELD_GET PRG_ETH0_EXT_PHY_MODE_MASK (regs hx PRG_ETH0) = 4)
      else
        (r = Inl (- EINVAL) \<and> h' = dev_err ''fail to set phy-mode %s'' h) \<and>
        (rx = Inl (- EINVAL) \<and> hx = dev_err ''fail to set phy-mode %s'' h)) \<and>
     (\<forall>reg. reg \<noteq> PRG_ETH0 \<longrightarrow> regs h' reg = regs h reg) \<and>
     (\<forall>reg. reg \<noteq> PRG_ETH0 \<longrightarrow> regs hx reg = regs h reg) \<and>
     regs h' PRG_ETH0 AND NOT PRG_ETH0_RGMII_MODE = regs h PRG_ETH0 AND NOT PRG_ETH0_RGMII_MODE \<and>
     regs hx PRG_ETH0 AND NOT PRG_ETH0_EXT_PHY_MODE_MASK =
       regs h PRG_ETH0 AND NOT PRG_ETH0_EXT_PHY_MODE_MASK"
proof -
  have b: "\<forall>i. bit PRG_ETH0_RGMII_MODE i \<longleftrightarrow> i = 0"
    by (simp add: PRG_ETH0_RGMII_MODE_def bit_BIT)
  have b': "\<forall>i. bit PRG_ETH0_EXT_PHY_MODE_MASK i \<longleftrightarrow> i \<in> {0, 1, 2}"
    by (rule allI) (rule bit_EXT_PHY_MODE_MASK)
  note l = legacy_policy [OF assms(1)] and x = extended_policy [OF assms(2)]
  note l1 = l [THEN conjunct1] and l2 = l [THEN conjunct2, THEN conjunct1]
    and l3 = l [THEN conjunct2, THEN conjunct2]
  note x1 = x [THEN conjunct1] and x2 = x [THEN conjunct2, THEN conjunct1]
    and x3 = x [THEN conjunct2, THEN conjunct2]
  have c: "if phy_interface_mode_is_rgmii (phy_mode dwmac) then
        (r = Inr () \<and> FIELD_GET PRG_ETH0_RGMII_MODE (regs h' PRG_ETH0) = 1) \<and>
        (rx = Inr () \<and> FIELD_GET PRG_ETH0_EXT_PHY_MODE_MASK (regs hx PRG_ETH0) = 1)
      else if phy_mode dwmac = PHY_INTERFACE_MODE_RMII then
        (r = Inr () \<and> FIELD_GET PRG_ETH0_RGMII_MODE (regs h' PRG_ETH0) = 0) \<and>
        (rx = Inr () \<and> FIELD_GET PRG_ETH0_EXT_PHY_MODE_MASK (regs hx PRG_ETH0) = 4)
      else
        (r = Inl (- EINVAL) \<and> h' = dev_err ''fail to set phy-mode %s'' h) \<and>
        (rx = Inl (- EINVAL) \<and> hx = dev_err ''fail to set phy-mode %s'' h)"
  proof (cases "phy_interface_mode_is_rgmii (phy_mode dwmac)")
    case True
    from l1 x1 show ?thesis unfolding if_P [OF True] by (rule conjI)
  next
    case False
    show ?thesis
    proof (cases "phy_mode dwmac = PHY_INTERFACE_MODE_RMII")
      case True
      from l1 x1 show ?thesis unfolding if_not_P [OF False] if_P [OF True] by (rule conjI)
    next
      case f: False
      from l1 x1 show ?thesis unfolding if_not_P [OF False] if_not_P [OF f] by (rule conjI)
    qed
  qed
  from b b' c l2 x2 l3 x3 show ?thesis by (intro conjI)
qed

theorem set_phy_mode_policies_witness:
  "phy_interface_mode_is_rgmii (phy_mode (board_dwmac PHY_INTERFACE_MODE_RGMII_ID 2 0)) \<and>
   (fst (meson8b_set_phy_mode (board_dwmac PHY_INTERFACE_MODE_RGMII_ID 2 0) reset_hw) = Inr () \<and>
    FIELD_GET PRG_ETH0_RGMII_MODE
      (regs (snd (meson8b_set_phy_mode (board_dwmac PHY_INTERFACE_MODE_RGMII_ID 2 0) reset_hw))
         PRG_ETH0) = 1) \<and>
   (fst (meson_axg_set_phy_mode (board_dwmac PHY_INTERFACE_MODE_RGMII_ID 2 0) reset_hw) =
      Inr () \<and>
    FIELD_GET PRG_ETH0_EXT_PHY_MODE_MASK
      (regs (snd (meson_axg_set_phy_mode (board_dwmac PHY_INTERFACE_MODE_RGMII_ID 2 0) reset_hw))
         PRG_ETH0) = 1)"
proof -
  let ?dw = "board_dwmac PHY_INTERFACE_MODE_RGMII_ID 2 0"
  have a: "meson8b_set_phy_mode ?dw reset_hw =
     (fst (meson8b_set_phy_mode ?dw reset_hw), snd (meson8b_set_phy_mode ?dw reset_hw))"
    and b: "meson_axg_set_phy_mode ?dw reset_hw =
     (fst (meson_axg_set_phy_mode ?dw reset_hw), snd (meson_axg_set_phy_mode ?dw reset_hw))"
    by (rule prod.collapse [symmetric])+
  have m: "phy_interface_mode_is_rgmii (phy_mode ?dw)"
    by (simp add: board_dwmac_def)
  note t = set_phy_mode_policies [OF a b, THEN conjunct2, THEN conjunct2, THEN conjunct1,
      unfolded if_P [OF m]]
  from m t show ?thesis by (rule conjI)
qed

text \<open>
  C10. The claim has the field written to the bits 6:5 equal to \<open>(tx_delay_ns >> 1) mod 4\<close>.
  In RGMII_TXID mode with a transmit delay of 2 ns the encoding has the field 1, yet the
  run, which succeeds, writes 0 to \<^verbatim>\<open>PRG_ETH0\<close> as the delay word, and the bits 6:5 of the
  final register (0x1000) are 0: in this mode \<open>delay_config\<close> is \<open>rx_dly_config\<close> alone.
\<close>

theorem init_prg_eth_txid_tx_field_zero:
  "(unat (2 :: u32) div 2) mod 4 = 1 \<and>
   tx_dly_config (board_dwmac PHY_INTERFACE_MODE_RGMII_TXID 2 0) = 0x20 \<and>
   fst (meson8b_init_prg_eth board (board_dwmac PHY_INTERFACE_MODE_RGMII_TXID 2 0) reset_hw) =
     Inr () \<and>
   trace (snd (meson8b_init_prg_eth board (board_dwmac PHY_INTERFACE_MODE_RGMII_TXID 2 0)
                 reset_hw)) =
     [Readl PRG_ETH0 0, Writel 0 PRG_ETH0, Readl PRG_ETH0 0, Writel 0 PRG_ETH0,
      Clk_set_rate (Some (Clk 1)) 125000000, Clk_prepare_enable (Some (Clk 1)),
      Devm_add_action_or_reset (Some (Clk 1)),
      Readl PRG_ETH0 0, Writel 0x1000 PRG_ETH0] \<and>
   regs (snd (meson8b_init_prg_eth board (board_dwmac PHY_INTERFACE_MODE_RGMII_TXID 2 0)
                reset_hw)) PRG_ETH0 = 0x1000 \<and>
   unat (FIELD_GET PRG_ETH0_TXDLY_MASK 0) = 0 \<and>
   unat (FIELD_GET PRG_ETH0_TXDLY_MASK 0x1000) = 0"
  by (simp add: run_defs board_defs val_defs FIELD_GET_def TXDLY_MASK_val bf_shf_TXDLY)

text \<open>
  C10, as amended. For every 32-bit transmit delay the return value of
  \<^verbatim>\<open>meson8b_init_prg_eth\<close> is the one it has for any other transmit delay: it never fails
  on account of the value. The encoding keeps \<open>(tx_delay_ns >> 1) mod 4\<close> in the bits 6:5
  and drops the rest, so a value outside 0, 2, 4, 6 is cut to the field without an error.
  In each of the five supported modes, once the timing-adjustment clock is dealt with,
  the delay word is written to \<^verbatim>\<open>PRG_ETH0\<close>, and its bits 6:5 hold this number in RGMII
  and RGMII_RXID mode and 0, whatever the transmit delay, in RGMII_TXID, RGMII_ID and
  RMII mode.
\<close>

theorem tx_delay_truncated_not_rejected:
  "fst (meson8b_init_prg_eth k (dwmac\<lparr>tx_delay_ns := tx\<rparr>) h) =
   fst (meson8b_init_prg_eth k (dwmac\<lparr>tx_delay_ns := tx'\<rparr>) h)
   \<and> tx_dly_config (dwmac\<lparr>tx_delay_ns := tx\<rparr>) AND NOT PRG_ETH0_TXDLY_MASK = 0
   \<and> unat (FIELD_GET PRG_ETH0_TXDLY_MASK (tx_dly_config (dwmac\<lparr>tx_delay_ns := tx\<rparr>))) =
       (unat tx div 2) mod 4
   \<and> (phy_mode dwmac \<in> {PHY_INTERFACE_MODE_RGMII, PHY_INTERFACE_MODE_RGMII_RXID,
        PHY_INTERFACE_MODE_RGMII_TXID, PHY_INTERFACE_MODE_RGMII_ID, PHY_INTERFACE_MODE_RMII} \<and>
      \<not> (rx_delay_ns dwmac = 2 \<and>
         (timing_adj_clk dwmac = None \<or>
          clk_prepare_enable_ret k (timing_adj_clk dwmac) \<noteq> 0)) \<longrightarrow>
      (\<exists>old d rest.
         trace (snd (meson8b_init_prg_eth k (dwmac\<lparr>tx_delay_ns := tx\<rparr>) h)) =
           trace h @
           (if rx_delay_ns dwmac = 2
            then [Clk_prepare_enable (timing_adj_clk dwmac),
                  Devm_add_action_or_reset (rgmii_tx_clk dwmac)]
            else []) @
           Readl PRG_ETH0 old # Writel d PRG_ETH0 # rest
         \<and> unat (FIELD_GET PRG_ETH0_TXDLY_MASK d) =
             (if phy_mode dwmac \<in> {PHY_INTERFACE_MODE_RGMII, PHY_INTERFACE_MODE_RGMII_RXID}
              then (unat tx div 2) mod 4 else 0)))"
proof -
  let ?dw = "dwmac\<lparr>tx_delay_ns := tx\<rparr>"
  have a: "fst (meson8b_init_prg_eth k ?dw h) =
           fst (meson8b_init_prg_eth k (dwmac\<lparr>tx_delay_ns := tx'\<rparr>) h)"
    by (simp add: init_prg_eth_result delay_config_tx_update)
  have b: "unat (FIELD_GET PRG_ETH0_TXDLY_MASK (tx_dly_config ?dw)) = (unat tx div 2) mod 4"
    using tx_dly_config_field [of ?dw] by simp
  have c: "\<exists>old d rest.
         trace (snd (meson8b_init_prg_eth k ?dw h)) =
           trace h @
           (if rx_delay_ns dwmac = 2
            then [Clk_prepare_enable (timing_adj_clk dwmac),
                  Devm_add_action_or_reset (rgmii_tx_clk dwmac)]
            else []) @
           Readl PRG_ETH0 old # Writel d PRG_ETH0 # rest
         \<and> unat (FIELD_GET PRG_ETH0_TXDLY_MASK d) =
             (if phy_mode dwmac \<in> {PHY_INTERFACE_MODE_RGMII, PHY_INTERFACE_MODE_RGMII_RXID}
              then (unat tx div 2) mod 4 else 0)"
    if mg: "phy_mode dwmac \<in> {PHY_INTERFACE_MODE_RGMII, PHY_INTERFACE_MODE_RGMII_RXID,
        PHY_INTERFACE_MODE_RGMII_TXID, PHY_INTERFACE_MODE_RGMII_ID, PHY_INTERFACE_MODE_RMII} \<and>
      \<not> (rx_delay_ns dwmac = 2 \<and>
         (timing_adj_clk dwmac = None \<or>
          clk_prepare_enable_ret k (timing_adj_clk dwmac) \<noteq> 0))"
  proof -
    from mg have m: "phy_mode ?dw \<in> {PHY_INTERFACE_MODE_RGMII, PHY_INTERFACE_MODE_RGMII_RXID,
        PHY_INTERFACE_MODE_RGMII_TXID, PHY_INTERFACE_MODE_RGMII_ID, PHY_INTERFACE_MODE_RMII}"
      and g': "\<not> (rx_delay_ns ?dw = 2 \<and>
         (timing_adj_clk ?dw = None \<or> clk_prepare_enable_ret k (timing_adj_clk ?dw) \<noteq> 0))"
      by simp_all
    from delay_config_txdly_field [OF m] obtain v where v: "delay_config ?dw = Some v"
      and fv: "FIELD_GET PRG_ETH0_TXDLY_MASK v =
             (if phy_mode dwmac \<in> {PHY_INTERFACE_MODE_RGMII, PHY_INTERFACE_MODE_RGMII_RXID}
              then FIELD_GET PRG_ETH0_TXDLY_MASK (tx_dly_config ?dw) else 0)"
      by auto
    from init_prg_eth_reaches_write [OF v g', of h]
    obtain old rest where
      t: "trace (snd (meson8b_init_prg_eth k ?dw h)) =
           trace h @
           (if rx_delay_ns dwmac = 2
            then [Clk_prepare_enable (timing_adj_clk dwmac),
                  Devm_add_action_or_reset (rgmii_tx_clk dwmac)]
            else []) @
           Readl PRG_ETH0 old # Writel ((old AND NOT delay_mask) OR v) PRG_ETH0 # rest"
      by auto
    have "FIELD_GET PRG_ETH0_TXDLY_MASK ((old AND NOT delay_mask) OR v) =
          FIELD_GET PRG_ETH0_TXDLY_MASK v"
      using field_get_txdly_written [of old v] delay_config_Some(1) [OF v] by simp
    with fv b have "unat (FIELD_GET PRG_ETH0_TXDLY_MASK ((old AND NOT delay_mask) OR v)) =
        (if phy_mode dwmac \<in> {PHY_INTERFACE_MODE_RGMII, PHY_INTERFACE_MODE_RGMII_RXID}
         then (unat tx div 2) mod 4 else 0)"
      by (simp del: insert_iff)
    with t show ?thesis by (intro exI conjI)
  qed
  have c': "phy_mode dwmac \<in> {PHY_INTERFACE_MODE_RGMII, PHY_INTERFACE_MODE_RGMII_RXID,
        PHY_INTERFACE_MODE_RGMII_TXID, PHY_INTERFACE_MODE_RGMII_ID, PHY_INTERFACE_MODE_RMII} \<and>
      \<not> (rx_delay_ns dwmac = 2 \<and>
         (timing_adj_clk dwmac = None \<or>
          clk_prepare_enable_ret k (timing_adj_clk dwmac) \<noteq> 0)) \<longrightarrow>
      (\<exists>old d rest.
         trace (snd (meson8b_init_prg_eth k ?dw h)) =
           trace h @
           (if rx_delay_ns dwmac = 2
            then [Clk_prepare_enable (timing_adj_clk dwmac),
                  Devm_add_action_or_reset (rgmii_tx_clk dwmac)]
            else []) @
           Readl PRG_ETH0 old # Writel d PRG_ETH0 # rest
         \<and> unat (FIELD_GET PRG_ETH0_TXDLY_MASK d) =
             (if phy_mode dwmac \<in> {PHY_INTERFACE_MODE_RGMII, PHY_INTERFACE_MODE_RGMII_RXID}
              then (unat tx div 2) mod 4 else 0))"
    by (rule impI) (rule c)
  show ?thesis
    by (rule conjI [OF a conjI [OF tx_dly_config_in_field [of ?dw] conjI [OF b c']]])
qed

text \<open>
  Two runs on the board with the transmit delay 10, outside 0, 2, 4, 6: in RGMII mode
  the delay word has the field \<open>(10 >> 1) mod 4 = 1\<close>, in RGMII_TXID mode the field 0.
\<close>

theorem tx_delay_truncated_not_rejected_witness:
  "(phy_mode (board_dwmac PHY_INTERFACE_MODE_RGMII 2 0)
      \<in> {PHY_INTERFACE_MODE_RGMII, PHY_INTERFACE_MODE_RGMII_RXID,
         PHY_INTERFACE_MODE_RGMII_TXID, PHY_INTERFACE_MODE_RGMII_ID, PHY_INTERFACE_MODE_RMII} \<and>
    \<not> (rx_delay_ns (board_dwmac PHY_INTERFACE_MODE_RGMII 2 0) = 2 \<and>
       (timing_adj_clk (board_dwmac PHY_INTERFACE_MODE_RGMII 2 0) = None \<or>
        clk_prepare_enable_ret board (timing_adj_clk (board_dwmac PHY_INTERFACE_MODE_RGMII 2 0))
          \<noteq> 0))) \<and>
   (\<exists>old d rest.
      trace (snd (meson8b_init_prg_eth board
                    ((board_dwmac PHY_INTERFACE_MODE_RGMII 2 0)\<lparr>tx_delay_ns := 10\<rparr>) reset_hw)) =
        Readl PRG_ETH0 old # Writel d PRG_ETH0 # rest \<and>
      unat (FIELD_GET PRG_ETH0_TXDLY_MASK d) = 1) \<and>
   (phy_mode (board_dwmac PHY_INTERFACE_MODE_RGMII_TXID 2 0)
      \<in> {PHY_INTERFACE_MODE_RGMII, PHY_INTERFACE_MODE_RGMII_RXID,
         PHY_INTERFACE_MODE_RGMII_TXID, PHY_INTERFACE_MODE_RGMII_ID, PHY_INTERFACE_MODE_RMII} \<and>
    \<not> (rx_delay_ns (board_dwmac PHY_INTERFACE_MODE_RGMII_TXID 2 0) = 2 \<and>
       (timing_adj_clk (board_dwmac PHY_INTERFACE_MODE_RGMII_TXID 2 0) = None \<or>
        clk_prepare_enable_ret board
          (timing_adj_clk (board_dwmac PHY_INTERFACE_MODE_RGMII_TXID 2 0)) \<noteq> 0))) \<and>
   (\<exists>old d rest.
      trace (snd (meson8b_init_prg_eth board
                    ((board_dwmac PHY_INTERFACE_MODE_RGMII_TXID 2 0)\<lparr>tx_delay_ns := 10\<rparr>)
                    reset_hw)) =
        Readl PRG_ETH0 old # Writel d PRG_ETH0 # rest \<and>
      unat (FIELD_GET PRG_ETH0_TXDLY_MASK d) = 0)"
proof -
  let ?dw = "board_dwmac PHY_INTERFACE_MODE_RGMII 2 0"
  let ?dx = "board_dwmac PHY_INTERFACE_MODE_RGMII_TXID 2 0"
  have g: "phy_mode ?dw \<in> {PHY_INTERFACE_MODE_RGMII, PHY_INTERFACE_MODE_RGMII_RXID,
         PHY_INTERFACE_MODE_RGMII_TXID, PHY_INTERFACE_MODE_RGMII_ID, PHY_INTERFACE_MODE_RMII} \<and>
    \<not> (rx_delay_ns ?dw = 2 \<and>
       (timing_adj_clk ?dw = None \<or> clk_prepare_enable_ret board (timing_adj_clk ?dw) \<noteq> 0))"
    by (simp add: board_dwmac_def)
  have gx: "phy_mode ?dx \<in> {PHY_INTERFACE_MODE_RGMII, PHY_INTERFACE_MODE_RGMII_RXID,
         PHY_INTERFACE_MODE_RGMII_TXID, PHY_INTERFACE_MODE_RGMII_ID, PHY_INTERFACE_MODE_RMII} \<and>
    \<not> (rx_delay_ns ?dx = 2 \<and>
       (timing_adj_clk ?dx = None \<or> clk_prepare_enable_ret board (timing_adj_clk ?dx) \<noteq> 0))"
    by (simp add: board_dwmac_def)
  have rx: "rx_delay_ns ?dw \<noteq> 2" and rxx: "rx_delay_ns ?dx \<noteq> 2"
    by (simp_all add: board_dwmac_def)
  have m: "phy_mode ?dw \<in> {PHY_INTERFACE_MODE_RGMII, PHY_INTERFACE_MODE_RGMII_RXID}"
    and mx: "phy_mode ?dx \<notin> {PHY_INTERFACE_MODE_RGMII, PHY_INTERFACE_MODE_RGMII_RXID}"
    by (simp_all add: board_dwmac_def)
  note t = tx_delay_truncated_not_rejected [where k = board and dwmac = "?dw" and tx = 10
      and h = reset_hw and tx' = 10,
      THEN conjunct2, THEN conjunct2, THEN conjunct2, THEN mp, OF g,
      unfolded if_not_P [OF rx] if_P [OF m]]
  then have a: "\<exists>old d rest.
      trace (snd (meson8b_init_prg_eth board (?dw\<lparr>tx_delay_ns := 10\<rparr>) reset_hw)) =
        Readl PRG_ETH0 old # Writel d PRG_ETH0 # rest \<and>
      unat (FIELD_GET PRG_ETH0_TXDLY_MASK d) = 1"
    by (simp add: reset_hw_def)
  note u = tx_delay_truncated_not_rejected [where k = board and dwmac = "?dx" and tx = 10
      and h = reset_hw and tx' = 10,
      THEN conjunct2, THEN conjunct2, THEN conjunct2, THEN mp, OF gx,
      unfolded if_not_P [OF rxx] if_not_P [OF mx]]
  then have b: "\<exists>old d rest.
      trace (snd (meson8b_init_prg_eth board (?dx\<lparr>tx_delay_ns := 10\<rparr>) reset_hw)) =
        Readl PRG_ETH0 old # Writel d PRG_ETH0 # rest \<and>
      unat (FIELD_GET PRG_ETH0_TXDLY_MASK d) = 0"
    by (simp add: reset_hw_def)
  show ?thesis
    by (rule conjI [OF g conjI [OF a conjI [OF gx b]]])
qed

text \<open>
  C6. The claim has every transmit delay outside 0, 2, 4, 6 rejected before it is
  encoded. Nothing in the driver looks at the value: probing the board with a transmit
  delay of 8 ns succeeds, the delay is kept as it is in \<^verbatim>\<open>dwmac->tx_delay_ns\<close>, and the
  encoding is applied to it and gives the field 0, as the final register shows (mode
  code 1, transmit field 0, bit 12).
\<close>

theorem probe_accepts_tx_delay_8:
  "(8 :: u32) \<notin> {0, 2, 4, 6} \<and>
   fst (meson8b_dwmac_probe (board\<lparr>of_tx_delay_ns := Some 8\<rparr>) reset_hw) =
     Inr (board_dwmac PHY_INTERFACE_MODE_RGMII 8 0) \<and>
   tx_dly_config (board_dwmac PHY_INTERFACE_MODE_RGMII 8 0) = 0 \<and>
   regs (snd (meson8b_dwmac_probe (board\<lparr>of_tx_delay_ns := Some 8\<rparr>) reset_hw)) PRG_ETH0 =
     0x1001"
  by (simp add: run_defs board_defs val_defs)

text \<open>
  C6, as amended. No transmit delay is rejected: for every value of the property,
  \<^verbatim>\<open>meson8b_dwmac_probe\<close> returns the same value and leaves the same registers and the
  same log as for the delay in 0, 2, 4, 6 that has the same field,
  \<open>2 * ((tx_delay_ns >> 1) mod 4)\<close>; on success \<^verbatim>\<open>dwmac->tx_delay_ns\<close> holds the value of the
  property itself. (The map on the right changes nothing but that field of the result.)
\<close>

theorem probe_tx_delay_not_validated:
  "meson8b_dwmac_probe (k\<lparr>of_tx_delay_ns := Some tx\<rparr>) h =
     map_prod (map_sum id (tx_delay_ns_update (\<lambda>_. tx))) id
       (meson8b_dwmac_probe (k\<lparr>of_tx_delay_ns := Some (2 * take_bit 2 (drop_bit 1 tx))\<rparr>) h)
   \<and> 2 * take_bit 2 (drop_bit 1 tx) \<in> {0, 2, 4, 6}
   \<and> unat (2 * take_bit 2 (drop_bit 1 tx)) = 2 * ((unat tx div 2) mod 4)"
proof -
  let ?n = "2 * take_bit 2 (drop_bit 1 tx)"
  obtain rB hB where pB: "probe_dwmac (k\<lparr>of_tx_delay_ns := Some ?n\<rparr>) h = (rB, hB)"
    by (cases "probe_dwmac (k\<lparr>of_tx_delay_ns := Some ?n\<rparr>) h")
  have pA: "probe_dwmac (k\<lparr>of_tx_delay_ns := Some tx\<rparr>) h =
              (map_sum id (tx_delay_ns_update (\<lambda>_. tx)) rB, hB)"
    unfolding probe_dwmac_tx [where k = k and tx = tx and h = h] pB by simp
  have a: "meson8b_dwmac_probe (k\<lparr>of_tx_delay_ns := Some tx\<rparr>) h =
     map_prod (map_sum id (tx_delay_ns_update (\<lambda>_. tx))) id
       (meson8b_dwmac_probe (k\<lparr>of_tx_delay_ns := Some ?n\<rparr>) h)"
    unfolding meson8b_dwmac_probe_def pA pB
    by (cases rB) (simp_all split: sum.splits)
  have "unat (take_bit 2 (drop_bit 1 tx)) < 4"
    unfolding unsigned_take_bit_eq by (simp add: take_bit_eq_mod)
  then have "unat ?n = 2 * unat (take_bit 2 (drop_bit 1 tx))"
    by (simp add: unat_word_ariths)
  then have c: "unat ?n = 2 * ((unat tx div 2) mod 4)"
    by (simp only: unat_shifted_field)
  from a normal_tx_in_range [of tx] c show ?thesis by (intro conjI)
qed

end
